theory Spec2Isabelle
  imports Complex_Main "HOL-Library.Log_Nat"
begin

section \<open>JavaScript numbers\<close>

text \<open>
  A JavaScript \<^verbatim>\<open>number\<close> is an IEEE-754 binary64 value. Every finite one is a rational,
  so amounts are rationals here; comparisons (\<^verbatim>\<open>>=\<close>) are exact on them. The
  arithmetic operators \<^verbatim>\<open>*\<close> and \<^verbatim>\<open>/\<close> round the exact result to the nearest value
  with a 53-bit significand, ties to the even significand: that is \<open>fl64\<close>. The
  exponent range is not bounded (no overflow to Infinity, no subnormals): the amounts of
  this program are far inside it. NaN is not a \<open>number\<close> here; where the source can
  produce it (arithmetic on \<^verbatim>\<open>undefined\<close>) the operand is an \<open>option\<close>.
\<close>

type_synonym number = rat

definition binade :: "rat \<Rightarrow> int" where
  \<comment> \<open>the exponent \<open>e\<close> with \<open>2^e \<le> |x| < 2^(e+1)\<close>, for \<open>x \<noteq> 0\<close>\<close>
  "binade x = (case quotient_of \<bar>x\<bar> of (p, q) \<Rightarrow>
     (let d = bitlen p - bitlen q in if 2 powi d \<le> \<bar>x\<bar> then d else d - 1))"

definition round_half_even :: "rat \<Rightarrow> int" where
  "round_half_even m = (let f = \<lfloor>m\<rfloor>; r = m - of_int f in
     if r < 1 / 2 then f else if 1 / 2 < r then f + 1 else if even f then f else f + 1)"

definition fl64 :: "rat \<Rightarrow> number" where
  "fl64 x = (if x = 0 then 0 else
     (let ulp = 2 powi (binade x - 52) in of_int (round_half_even (x / ulp)) * ulp))"

definition js_mul :: "number \<Rightarrow> number \<Rightarrow> number" where
  "js_mul x y = fl64 (x * y)"

definition js_div :: "number \<Rightarrow> number \<Rightarrow> number" where
  \<comment> \<open>only used with the divisor 100\<close>
  "js_div x y = fl64 (x / y)"

definition Math_round :: "number \<Rightarrow> number" where
  \<comment> \<open>\<^verbatim>\<open>Math.round\<close>: the nearest integer, a tie going up\<close>
  "Math_round x = of_int \<lfloor>x + 1 / 2\<rfloor>"

text \<open>
  \<^verbatim>\<open>Number.prototype.toString\<close>: the decimal text of a number has as few significant digits
  as a decimal can have that still reads back as the number; of two such decimals the
  nearer one is taken, the one with the even last digit when they are equally near. Only
  the value of the text is needed here. \<open>shortest_at x q\<close> looks among the multiples of
  \<open>10^q\<close>: only the two around \<open>x\<close> can read back as \<open>x\<close>. A decimal with \<open>j\<close> significant
  digits near \<open>x\<close> is a multiple of \<open>10^(n - j)\<close>, where \<open>10^(n-1) \<le> x < 10^n\<close>, and 17
  digits are enough for every binary64 number.
\<close>

function decimal_digits :: "int \<Rightarrow> int" where
  \<comment> \<open>the number of decimal digits of a positive integer\<close>
  "decimal_digits p = (if p < 10 then 1 else decimal_digits (p div 10) + 1)"
  by pat_completeness auto
termination
  by (relation "measure nat") auto

declare decimal_digits.simps [simp del]

definition decimal_exponent :: "rat \<Rightarrow> int" where
  \<comment> \<open>the \<open>n\<close> with \<open>10^(n-1) \<le> x < 10^n\<close>, for \<open>0 < x\<close>\<close>
  "decimal_exponent x = (case quotient_of x of (p, q) \<Rightarrow>
     (let d = decimal_digits p - decimal_digits q in if x < 10 powi d then d else d + 1))"

definition shortest_at :: "number \<Rightarrow> int \<Rightarrow> rat option" where
  "shortest_at x q = (let u = 10 powi q; lo = of_int \<lfloor>x / u\<rfloor> * u; hi = lo + u in
     if 0 < lo \<and> fl64 lo = x \<and> fl64 hi = x
     then Some (if x - lo < hi - x \<or> (x - lo = hi - x \<and> even \<lfloor>x / u\<rfloor>) then lo else hi)
     else if 0 < lo \<and> fl64 lo = x then Some lo
     else if fl64 hi = x then Some hi
     else None)"

fun shortest_from :: "number \<Rightarrow> int \<Rightarrow> nat \<Rightarrow> rat option" where
  "shortest_from x q 0 = None"
| "shortest_from x q (Suc digits) =
     (case shortest_at x q of Some d \<Rightarrow> Some d | None \<Rightarrow> shortest_from x (q - 1) digits)"

definition Number_toString :: "number \<Rightarrow> rat" where
  "Number_toString a = (if a = 0 then 0 else
     (case shortest_from \<bar>a\<bar> (decimal_exponent \<bar>a\<bar> - 1) 17 of
        Some d \<Rightarrow> sgn a * d
      | None \<Rightarrow> a))"

text \<open>\<^verbatim>\<open>s.includes(sub)\<close>\<close>

fun str_includes :: "string \<Rightarrow> string \<Rightarrow> bool" where
  "str_includes [] sub = (sub = [])"
| "str_includes (c # cs) sub = (take (length sub) (c # cs) = sub \<or> str_includes cs sub)"

text \<open>\<^verbatim>\<open>s.slice(-4)\<close>: the last four characters, or all of a shorter string.\<close>

definition slice_last4 :: "string \<Rightarrow> string" where
  "slice_last4 s = drop (length s - 4) s"


section \<open>Types (src/types/payment.types.ts)\<close>

datatype PaymentStatus =
  PENDING | PROCESSING | AUTHORIZED | PAID | FAILED | REFUNDED | PARTIALLY_REFUNDED | VOIDED

datatype PaymentMethod = CREDITCARD | MADA | APPLEPAY | STC_PAY

datatype PSPProvider = MOYASAR | HYPERPAY | TAP | CHECKOUT

datatype Currency = SAR | USD | AED

type_synonym metadata = "(string \<times> string) list"

record PaymentSource =
  src_type :: PaymentMethod
  src_number :: "string option"
  src_name :: "string option"
  src_month :: "string option"
  src_year :: "string option"
  src_cvc :: "string option"
  src_token :: "string option"

record PaymentRequest =
  rq_amount :: number
  rq_currency :: Currency
  rq_description :: "string option"
  rq_callback_url :: "string option"
  rq_source :: "PaymentSource option"
  rq_metadata :: "metadata option"

record ResponseSource =
  rsrc_type :: PaymentMethod
  rsrc_company :: "string option"
  rsrc_name :: "string option"
  rsrc_number :: "string option"
  rsrc_gateway_id :: "string option"
  rsrc_reference_number :: "string option"
  rsrc_token :: "string option"

text \<open>
  \<^verbatim>\<open>PaymentResponse\<close>. The type of the status field is a parameter: the interface declares
  \<open>PaymentStatus\<close>, and the orchestration service is written against that.
\<close>

record 'st PaymentResponse =
  rs_id :: string
  rs_status :: 'st
  rs_amount :: number
  rs_currency :: Currency
  rs_fee :: "number option"
  rs_source :: "ResponseSource option"
  rs_created_at :: string
  rs_updated_at :: "string option"
  rs_description :: "string option"
  rs_metadata :: "metadata option"
  rs_callback_url :: "string option"

record RefundRequest =
  rf_amount :: "number option"
  rf_reason :: "string option"

record RefundResponse =
  rr_id :: string
  rr_payment_id :: string
  rr_amount :: number
  rr_status :: string
  rr_created_at :: string

text \<open>A thrown \<^verbatim>\<open>Error\<close>, with its message.\<close>

datatype error = Error (message: string)


section \<open>The ledger (models/Transaction, the TypeORM repository)\<close>

text \<open>
  The entity \<^verbatim>\<open>Transaction\<close>. The two timestamps, which the database writes, are left out.
\<close>

record Transaction =
  tx_id :: string
  tx_merchant_id :: string
  tx_psp_provider :: PSPProvider
  tx_psp_transaction_id :: string
  tx_amount :: number
  tx_currency :: Currency
  tx_status :: PaymentStatus
  tx_payment_method :: PaymentMethod
  tx_card_token :: "string option"
  tx_card_brand :: "string option"
  tx_card_last_four :: "string option"
  tx_description :: "string option"
  tx_fee :: number
  tx_metadata :: "metadata option"
  tx_callback_url :: "string option"
  tx_error_message :: "string option"
  tx_psp_reference_number :: "string option"

type_synonym ledger = "Transaction list"

text \<open>
  The column \<^verbatim>\<open>amount\<close> is declared \<^verbatim>\<open>@Column('decimal', { precision: 10, scale: 2 })\<close>. The
  driver writes a number as its decimal text; the database (PostgreSQL) rounds the decimal
  to two places, a tie away from zero, and refuses a value that then needs more than eight
  digits before the point (\<^verbatim>\<open>numeric field overflow\<close>). A row that is read has the decimal's
  text in the field, and the comparisons of the program take the number nearest to it:
  this number is the \<open>tx_amount\<close> of the row. \<open>decimal_10_2 a\<close> is what the column holds
  after the number \<open>a\<close> was written to it, \<open>None\<close> when the database refuses the row.
\<close>

definition round_half_away :: "rat \<Rightarrow> int" where
  "round_half_away x = (if 0 \<le> x then \<lfloor>x + 1 / 2\<rfloor> else - \<lfloor>- x + 1 / 2\<rfloor>)"

definition decimal_10_2 :: "number \<Rightarrow> number option" where
  "decimal_10_2 a = (let cents = round_half_away (Number_toString a * 100) in
     if 10 ^ 10 \<le> \<bar>cents\<bar> then None else Some (fl64 (of_int cents / 100)))"

text \<open>\<^verbatim>\<open>findOne({ where: { id } })\<close> and \<^verbatim>\<open>findOne({ where: { psp_transaction_id } })\<close>: the first row.\<close>

definition findOne_id :: "ledger \<Rightarrow> string \<Rightarrow> Transaction option" where
  "findOne_id db i = find (\<lambda>t. tx_id t = i) db"

definition findOne_psp :: "ledger \<Rightarrow> string \<Rightarrow> Transaction option" where
  "findOne_psp db p = find (\<lambda>t. tx_psp_transaction_id t = p) db"

text \<open>
  \<^verbatim>\<open>save(entity)\<close>: the row with the entity's primary key is replaced; an entity whose key
  is new is inserted. The program only saves again rows that it has read, with another
  status (and message): their amount is what the column already holds.
\<close>

definition save :: "Transaction \<Rightarrow> ledger \<Rightarrow> ledger" where
  "save t db = (if \<exists>r \<in> set db. tx_id r = tx_id t
     then map (\<lambda>r. if tx_id r = tx_id t then t else r) db
     else db @ [t])"


section \<open>The orchestration service (src/services/PaymentService.ts)\<close>

text \<open>
  The service is written against the connector's interface; a call of a connector method
  either returns or throws (\<open>Inl\<close>). The connector is an argument of every operation, so
  two calls may meet different answers of the provider.
\<close>

record Connector =
  connector_createPayment :: "PaymentRequest \<Rightarrow> error + PaymentStatus PaymentResponse"
  connector_getPayment :: "string \<Rightarrow> error + PaymentStatus PaymentResponse"
  connector_refundPayment :: "string \<Rightarrow> RefundRequest option \<Rightarrow> error + RefundResponse"

fun provider_name :: "PSPProvider \<Rightarrow> string" where
  "provider_name MOYASAR = ''moyasar''"
| "provider_name HYPERPAY = ''hyperpay''"
| "provider_name TAP = ''tap''"
| "provider_name CHECKOUT = ''checkout''"

definition selectPSP :: "PaymentRequest \<Rightarrow> PSPProvider" where
  "selectPSP request =
     (if map_option src_type (rq_source request) = Some MADA then MOYASAR else MOYASAR)"

fun getPSPConnector :: "Connector \<Rightarrow> PSPProvider \<Rightarrow> error + Connector" where
  "getPSPConnector moyasarConnector MOYASAR = Inr moyasarConnector"
| "getPSPConnector moyasarConnector provider =
     Inl (Error (''Unsupported PSP provider: '' @ provider_name provider))"

text \<open>The \<^verbatim>\<open>catch\<close> block of each operation throws a new error around the message.\<close>

definition rethrow :: "string \<Rightarrow> error \<Rightarrow> error" where
  "rethrow prefix e = Error (prefix @ message e)"

text \<open>
  \<^verbatim>\<open>createPayment(merchantId, request)\<close>. \<open>uuid\<close> is the primary key the database generates
  for the inserted row. \<^verbatim>\<open>save\<close> of the new entity is an insert; it throws when the column
  \<^verbatim>\<open>amount\<close> refuses the value, after the provider has accepted the payment, and the
  \<^verbatim>\<open>catch\<close> block throws that error on.
\<close>

definition createPayment ::
  "Connector \<Rightarrow> string \<Rightarrow> string \<Rightarrow> PaymentRequest \<Rightarrow> ledger
     \<Rightarrow> (error + PaymentStatus PaymentResponse) \<times> ledger" where
  "createPayment moyasarConnector uuid merchantId request db =
     (case getPSPConnector moyasarConnector (selectPSP request) of
        Inl e \<Rightarrow> (Inl (rethrow ''Failed to create payment: '' e), db)
      | Inr connector \<Rightarrow>
          (case connector_createPayment connector request of
             Inl e \<Rightarrow> (Inl (rethrow ''Failed to create payment: '' e), db)
           | Inr pspResponse \<Rightarrow>
               (case decimal_10_2 (rq_amount request) of
                  None \<Rightarrow>
                    (Inl (rethrow ''Failed to create payment: '' (Error ''numeric field overflow'')),
                     db)
                | Some amount \<Rightarrow>
                    (let transaction = \<lparr>
                           tx_id = uuid,
                           tx_merchant_id = merchantId,
                           tx_psp_provider = selectPSP request,
                           tx_psp_transaction_id = rs_id pspResponse,
                           tx_amount = amount,
                           tx_currency = rq_currency request,
                           tx_status = rs_status pspResponse,
                           tx_payment_method =
                             (case rq_source request of
                                None \<Rightarrow> CREDITCARD
                              | Some s \<Rightarrow> src_type s),
                           tx_card_token = Option.bind (rs_source pspResponse) rsrc_token,
                           tx_card_brand = Option.bind (rs_source pspResponse) rsrc_company,
                           tx_card_last_four =
                             map_option slice_last4
                               (Option.bind (rs_source pspResponse) rsrc_number),
                           tx_description = rq_description request,
                           tx_fee = 0,
                           tx_metadata = rq_metadata request,
                           tx_callback_url = rq_callback_url request,
                           tx_error_message = None,
                           tx_psp_reference_number = None \<rparr>
                     in (Inr (pspResponse\<lparr>rs_id := tx_id transaction\<rparr>), db @ [transaction])))))"

definition getPayment ::
  "Connector \<Rightarrow> string \<Rightarrow> ledger \<Rightarrow> (error + PaymentStatus PaymentResponse) \<times> ledger" where
  "getPayment moyasarConnector transactionId db =
     (case findOne_id db transactionId of
        None \<Rightarrow> (Inl (rethrow ''Failed to get payment: '' (Error ''Transaction not found'')), db)
      | Some transaction \<Rightarrow>
          (case getPSPConnector moyasarConnector (tx_psp_provider transaction) of
             Inl e \<Rightarrow> (Inl (rethrow ''Failed to get payment: '' e), db)
           | Inr connector \<Rightarrow>
               (case connector_getPayment connector (tx_psp_transaction_id transaction) of
                  Inl e \<Rightarrow> (Inl (rethrow ''Failed to get payment: '' e), db)
                | Inr pspResponse \<Rightarrow>
                    (Inr (pspResponse\<lparr>rs_id := tx_id transaction\<rparr>),
                     if rs_status pspResponse \<noteq> tx_status transaction
                     then save (transaction\<lparr>tx_status := rs_status pspResponse\<rparr>) db
                     else db))))"

text \<open>
  \<^verbatim>\<open>refundRequest?.amount || transaction.amount\<close>: an amount that is missing or 0 is
  falsy.
\<close>

definition or_number :: "number option \<Rightarrow> number \<Rightarrow> number" where
  "or_number a d = (case a of None \<Rightarrow> d | Some v \<Rightarrow> if v = 0 then d else v)"

definition refundPayment ::
  "Connector \<Rightarrow> string \<Rightarrow> RefundRequest option \<Rightarrow> ledger \<Rightarrow> (error + RefundResponse) \<times> ledger" where
  "refundPayment moyasarConnector transactionId refundRequest db =
     (case findOne_id db transactionId of
        None \<Rightarrow> (Inl (rethrow ''Failed to refund payment: '' (Error ''Transaction not found'')), db)
      | Some transaction \<Rightarrow>
          if tx_status transaction \<noteq> PAID
          then (Inl (rethrow ''Failed to refund payment: ''
                       (Error ''Only paid transactions can be refunded'')), db)
          else
            (case getPSPConnector moyasarConnector (tx_psp_provider transaction) of
               Inl e \<Rightarrow> (Inl (rethrow ''Failed to refund payment: '' e), db)
             | Inr connector \<Rightarrow>
                 (case connector_refundPayment connector
                         (tx_psp_transaction_id transaction) refundRequest of
                    Inl e \<Rightarrow> (Inl (rethrow ''Failed to refund payment: '' e), db)
                  | Inr refundResponse \<Rightarrow>
                      (let refundAmount =
                             or_number (Option.bind refundRequest rf_amount) (tx_amount transaction)
                       in (Inr refundResponse,
                           save (transaction\<lparr>tx_status :=
                                   (if refundAmount \<ge> tx_amount transaction
                                    then REFUNDED else PARTIALLY_REFUNDED)\<rparr>) db)))))"

text \<open>
  The error taxonomy of the service is carried by messages. \<open>InvalidState\<close> is the error
  the refund guard throws, as it leaves \<open>refundPayment\<close>; the controller recognises it by
  \<^verbatim>\<open>error.message.includes('Only paid transactions')\<close> and a missing row by
  \<^verbatim>\<open>error.message.includes('not found')\<close>.
\<close>

definition InvalidState :: error where
  "InvalidState = Error ''Failed to refund payment: Only paid transactions can be refunded''"

definition isInvalidState :: "error \<Rightarrow> bool" where
  "isInvalidState e = str_includes (message e) ''Only paid transactions''"

definition isNotFound :: "error \<Rightarrow> bool" where
  "isNotFound e = str_includes (message e) ''not found''"


section \<open>The webhook controller (controllers/WebhookController)\<close>

record Merchant =
  m_id :: string
  m_name :: string
  m_email :: string
  m_api_key :: string
  m_webhook_url :: "string option"
  m_webhook_secret :: "string option"
  m_active :: bool

text \<open>The fields of \<^verbatim>\<open>event.data\<close> that the handlers read.\<close>

record PaymentData =
  pd_id :: string
  pd_message :: "string option"
  pd_refunded_amount :: "number option"

record WebhookEvent =
  ev_type :: string
  ev_data :: "PaymentData option"

record WebhookRequest =
  wh_signature :: "string option"  \<comment> \<open>the header \<^verbatim>\<open>x-moyasar-signature\<close>\<close>
  wh_body :: WebhookEvent

text \<open>The payload forwarded to the merchant, and one \<^verbatim>\<open>axios.post\<close> of it.\<close>

record MerchantWebhook =
  mw_event :: string
  mw_transaction_id :: string
  mw_status :: PaymentStatus
  mw_amount :: number
  mw_currency :: Currency
  mw_psp_provider :: PSPProvider
  mw_metadata :: "metadata option"
  mw_original_data :: PaymentData

record Delivery =
  dl_url :: string
  dl_payload :: MerchantWebhook
  dl_signature :: string

text \<open>
  What the controller takes from its environment and libraries: the configured secret
  (\<^verbatim>\<open>process.env.MOYASAR_WEBHOOK_SECRET\<close>), HMAC-SHA256 with a hex digest (first argument the
  key), and \<^verbatim>\<open>JSON.stringify\<close> on the two shapes it serialises.
\<close>

record Runtime =
  MOYASAR_WEBHOOK_SECRET :: "string option"
  hmac_sha256_hex :: "string \<Rightarrow> string \<Rightarrow> string"
  stringify_event :: "WebhookEvent \<Rightarrow> string"
  stringify_payload :: "MerchantWebhook \<Rightarrow> string"

text \<open>
  The state the controller works on: the two repositories and the posts made to merchants
  so far (a post that fails is caught and logged, so its outcome changes nothing).
\<close>

record World =
  transactions :: ledger
  merchants :: "Merchant list"
  outbox :: "Delivery list"

datatype WebhookBody = Received | ErrorBody string

record WebhookResponse =
  wr_status :: nat
  wr_body :: WebhookBody

definition verifyWebhookSignature :: "Runtime \<Rightarrow> string \<Rightarrow> string \<Rightarrow> string \<Rightarrow> bool" where
  "verifyWebhookSignature rt payload signature secret =
     (hmac_sha256_hex rt secret payload = signature)"

definition generateWebhookSignature :: "Runtime \<Rightarrow> MerchantWebhook \<Rightarrow> string \<Rightarrow> string" where
  "generateWebhookSignature rt payload secret =
     hmac_sha256_hex rt secret (stringify_payload rt payload)"

text \<open>\<^verbatim>\<open>a || d\<close> on an optional string: a missing and an empty string are falsy.\<close>

definition or_string :: "string option \<Rightarrow> string \<Rightarrow> string" where
  "or_string a d = (case a of None \<Rightarrow> d | Some v \<Rightarrow> if v = [] then d else v)"

definition forwardWebhookToMerchant ::
  "Runtime \<Rightarrow> Transaction \<Rightarrow> string \<Rightarrow> PaymentData \<Rightarrow> World \<Rightarrow> World" where
  "forwardWebhookToMerchant rt transaction eventType pspData w =
     (case find (\<lambda>m. m_id m = tx_merchant_id transaction) (merchants w) of
        None \<Rightarrow> w
      | Some merchant \<Rightarrow>
          (case m_webhook_url merchant of
             None \<Rightarrow> w
           | Some url \<Rightarrow>
               if url = [] then w
               else
                 (let webhookPayload = \<lparr>
                        mw_event = eventType,
                        mw_transaction_id = tx_id transaction,
                        mw_status = tx_status transaction,
                        mw_amount = tx_amount transaction,
                        mw_currency = tx_currency transaction,
                        mw_psp_provider = tx_psp_provider transaction,
                        mw_metadata = tx_metadata transaction,
                        mw_original_data = pspData \<rparr>
                  in w\<lparr>outbox := outbox w @
                       [\<lparr> dl_url = url,
                          dl_payload = webhookPayload,
                          dl_signature = generateWebhookSignature rt webhookPayload
                            (or_string (m_webhook_secret merchant) []) \<rparr>]\<rparr>)))"

definition handlePaymentPaid :: "Runtime \<Rightarrow> PaymentData \<Rightarrow> World \<Rightarrow> World" where
  "handlePaymentPaid rt paymentData w =
     (case findOne_psp (transactions w) (pd_id paymentData) of
        None \<Rightarrow> w
      | Some transaction \<Rightarrow>
          (let t = transaction\<lparr>tx_status := PAID\<rparr>
           in forwardWebhookToMerchant rt t ''payment.paid'' paymentData
                (w\<lparr>transactions := save t (transactions w)\<rparr>)))"

definition handlePaymentFailed :: "Runtime \<Rightarrow> PaymentData \<Rightarrow> World \<Rightarrow> World" where
  "handlePaymentFailed rt paymentData w =
     (case findOne_psp (transactions w) (pd_id paymentData) of
        None \<Rightarrow> w
      | Some transaction \<Rightarrow>
          (let t = transaction\<lparr>tx_status := FAILED,
                     tx_error_message := Some (or_string (pd_message paymentData) ''Payment failed'')\<rparr>
           in forwardWebhookToMerchant rt t ''payment.failed'' paymentData
                (w\<lparr>transactions := save t (transactions w)\<rparr>)))"

text \<open>
  \<^verbatim>\<open>paymentData.refunded_amount / 100 >= transaction.amount\<close>; without the field the
  quotient is NaN, and every comparison with NaN is false.
\<close>

definition refunded_in_full :: "PaymentData \<Rightarrow> Transaction \<Rightarrow> bool" where
  "refunded_in_full paymentData transaction =
     (case pd_refunded_amount paymentData of
        None \<Rightarrow> False
      | Some refunded \<Rightarrow> js_div refunded 100 \<ge> tx_amount transaction)"

definition handlePaymentRefunded :: "Runtime \<Rightarrow> PaymentData \<Rightarrow> World \<Rightarrow> World" where
  "handlePaymentRefunded rt paymentData w =
     (case findOne_psp (transactions w) (pd_id paymentData) of
        None \<Rightarrow> w
      | Some transaction \<Rightarrow>
          (let t = transaction\<lparr>tx_status :=
                     (if refunded_in_full paymentData transaction
                      then REFUNDED else PARTIALLY_REFUNDED)\<rparr>
           in forwardWebhookToMerchant rt t ''payment.refunded'' paymentData
                (w\<lparr>transactions := save t (transactions w)\<rparr>)))"

text \<open>
  The guard \<^verbatim>\<open>webhookSecret && signature\<close> and the check inside it: the request is turned
  away exactly when both strings are there and non-empty and the digest differs.
\<close>

definition signature_refused :: "Runtime \<Rightarrow> WebhookRequest \<Rightarrow> bool" where
  "signature_refused rt req =
     (case MOYASAR_WEBHOOK_SECRET rt of
        None \<Rightarrow> False
      | Some webhookSecret \<Rightarrow>
          (case wh_signature req of
             None \<Rightarrow> False
           | Some signature \<Rightarrow>
               webhookSecret \<noteq> [] \<and> signature \<noteq> [] \<and>
               \<not> verifyWebhookSignature rt (stringify_event rt (wh_body req))
                    signature webhookSecret))"

text \<open>
  The \<^verbatim>\<open>switch\<close> on \<^verbatim>\<open>event.type\<close>. A handler reads \<^verbatim>\<open>paymentData.id\<close> first, so an event of
  a handled type without \<^verbatim>\<open>data\<close> throws before anything is written (\<open>None\<close>).
\<close>

definition dispatch :: "Runtime \<Rightarrow> WebhookEvent \<Rightarrow> World \<Rightarrow> World option" where
  "dispatch rt event w =
     (if ev_type event = ''payment_paid''
      then map_option (\<lambda>d. handlePaymentPaid rt d w) (ev_data event)
      else if ev_type event = ''payment_failed''
      then map_option (\<lambda>d. handlePaymentFailed rt d w) (ev_data event)
      else if ev_type event = ''payment_refunded''
      then map_option (\<lambda>d. handlePaymentRefunded rt d w) (ev_data event)
      else Some w)"

definition handleMoyasarWebhook ::
  "Runtime \<Rightarrow> WebhookRequest \<Rightarrow> World \<Rightarrow> WebhookResponse \<times> World" where
  "handleMoyasarWebhook rt req w =
     (if signature_refused rt req
      then (\<lparr> wr_status = 401, wr_body = ErrorBody ''Invalid signature'' \<rparr>, w)
      else
        (case dispatch rt (wh_body req) w of
           None \<Rightarrow> (\<lparr> wr_status = 500, wr_body = ErrorBody ''Webhook processing failed'' \<rparr>, w)
         | Some w' \<Rightarrow> (\<lparr> wr_status = 200, wr_body = Received \<rparr>, w')))"


section \<open>The merchant API (middleware/auth.ts, controllers/PaymentController.ts, the routes)\<close>

record ApiRequest =
  hr_authorization :: "string option"  \<comment> \<open>the header \<^verbatim>\<open>Authorization\<close>\<close>
  hr_id :: string  \<comment> \<open>\<^verbatim>\<open>req.params.id\<close>\<close>
  hr_refund :: "RefundRequest option"  \<comment> \<open>\<^verbatim>\<open>req.body\<close> of a refund\<close>

datatype 'a ApiBody =
  Success 'a  \<comment> \<open>\<^verbatim>\<open>{ success: true, data }\<close>\<close>
| Failure string "string option"  \<comment> \<open>\<^verbatim>\<open>{ success: false, error, message? }\<close>\<close>
| Denied string string  \<comment> \<open>\<^verbatim>\<open>{ error, message }\<close> of the middleware\<close>

record 'a ApiResponse =
  ar_status :: nat
  ar_body :: "'a ApiBody"

text \<open>
  \<^verbatim>\<open>authenticateApiKey\<close>: either the response that ends the request (status, \<^verbatim>\<open>error\<close>,
  \<^verbatim>\<open>message\<close>), or the merchant attached to it as \<^verbatim>\<open>req.merchant\<close> before \<^verbatim>\<open>next()\<close>.
\<close>

definition authenticateApiKey ::
  "Merchant list \<Rightarrow> ApiRequest \<Rightarrow> (nat \<times> string \<times> string) + Merchant" where
  "authenticateApiKey ms req =
     (case hr_authorization req of
        None \<Rightarrow> Inl (401, ''Unauthorized'',
            ''Missing or invalid API key. Use: Authorization: Bearer YOUR_API_KEY'')
      | Some authHeader \<Rightarrow>
          if authHeader = [] \<or> take 7 authHeader \<noteq> ''Bearer ''
          then Inl (401, ''Unauthorized'',
            ''Missing or invalid API key. Use: Authorization: Bearer YOUR_API_KEY'')
          else
            (case find (\<lambda>m. m_api_key m = drop 7 authHeader) ms of
               None \<Rightarrow> Inl (401, ''Unauthorized'', ''Invalid API key'')
             | Some merchant \<Rightarrow>
                 if \<not> m_active merchant
                 then Inl (403, ''Forbidden'', ''Merchant account is inactive'')
                 else Inr merchant))"

text \<open>
  The two controller methods, with \<^verbatim>\<open>req.merchant\<close> as an argument of its own. Neither
  reads it: \<^verbatim>\<open>getPayment\<close> carries the comment that the ownership check would be in the
  service layer in production.
\<close>

definition PaymentController_getPayment ::
  "Connector \<Rightarrow> Merchant \<Rightarrow> ApiRequest \<Rightarrow> ledger
     \<Rightarrow> (PaymentStatus PaymentResponse) ApiResponse \<times> ledger" where
  "PaymentController_getPayment moyasarConnector merchant req db =
     (case getPayment moyasarConnector (hr_id req) db of
        (Inr payment, db') \<Rightarrow> (\<lparr> ar_status = 200, ar_body = Success payment \<rparr>, db')
      | (Inl e, db') \<Rightarrow>
          if isNotFound e
          then (\<lparr> ar_status = 404, ar_body = Failure ''Payment not found'' None \<rparr>, db')
          else (\<lparr> ar_status = 500,
                  ar_body = Failure ''Failed to get payment'' (Some (message e)) \<rparr>, db'))"

definition PaymentController_refundPayment ::
  "Connector \<Rightarrow> Merchant \<Rightarrow> ApiRequest \<Rightarrow> ledger \<Rightarrow> RefundResponse ApiResponse \<times> ledger" where
  "PaymentController_refundPayment moyasarConnector merchant req db =
     (case refundPayment moyasarConnector (hr_id req) (hr_refund req) db of
        (Inr refund, db') \<Rightarrow> (\<lparr> ar_status = 200, ar_body = Success refund \<rparr>, db')
      | (Inl e, db') \<Rightarrow>
          if isNotFound e
          then (\<lparr> ar_status = 404, ar_body = Failure ''Payment not found'' None \<rparr>, db')
          else if isInvalidState e
          then (\<lparr> ar_status = 400,
                  ar_body = Failure ''Invalid payment status for refund'' (Some (message e)) \<rparr>, db')
          else (\<lparr> ar_status = 500,
                  ar_body = Failure ''Failed to refund payment'' (Some (message e)) \<rparr>, db'))"

text \<open>The routes \<^verbatim>\<open>GET /payments/:id\<close> and \<^verbatim>\<open>POST /payments/:id/refund\<close>: middleware, then controller.\<close>

definition route_getPayment ::
  "Connector \<Rightarrow> Merchant list \<Rightarrow> ApiRequest \<Rightarrow> ledger
     \<Rightarrow> (PaymentStatus PaymentResponse) ApiResponse \<times> ledger" where
  "route_getPayment moyasarConnector ms req db =
     (case authenticateApiKey ms req of
        Inl (code, err, msg) \<Rightarrow> (\<lparr> ar_status = code, ar_body = Denied err msg \<rparr>, db)
      | Inr merchant \<Rightarrow> PaymentController_getPayment moyasarConnector merchant req db)"

definition route_refundPayment ::
  "Connector \<Rightarrow> Merchant list \<Rightarrow> ApiRequest \<Rightarrow> ledger \<Rightarrow> RefundResponse ApiResponse \<times> ledger" where
  "route_refundPayment moyasarConnector ms req db =
     (case authenticateApiKey ms req of
        Inl (code, err, msg) \<Rightarrow> (\<lparr> ar_status = code, ar_body = Denied err msg \<rparr>, db)
      | Inr merchant \<Rightarrow> PaymentController_refundPayment moyasarConnector merchant req db)"


section \<open>The Moyasar connector (src/connectors/MoyasarConnector.ts)\<close>

datatype PayloadSource =
  TokenSource string
| CardSource PaymentMethod "string option" string "string option" "string option" "string option"
    \<comment> \<open>type, name, number, month, year, cvc\<close>

record MoyasarPayload =
  mp_amount :: number
  mp_currency :: Currency
  mp_description :: string
  mp_callback_url :: "string option"
  mp_source :: "PayloadSource option"
  mp_metadata :: "metadata option"

definition buildPaymentPayload :: "PaymentRequest \<Rightarrow> MoyasarPayload" where
  "buildPaymentPayload request = \<lparr>
     mp_amount = Math_round (js_mul (rq_amount request) 100),
     mp_currency = rq_currency request,
     mp_description = or_string (rq_description request) ''Payment'',
     mp_callback_url = rq_callback_url request,
     mp_source =
       (case rq_source request of
          None \<Rightarrow> None
        | Some source \<Rightarrow>
            (case src_token source of
               Some (c # cs) \<Rightarrow> Some (TokenSource (c # cs))
             | _ \<Rightarrow>
                 (case src_number source of
                    Some (c # cs) \<Rightarrow>
                      Some (CardSource (src_type source) (src_name source) (c # cs)
                              (src_month source) (src_year source) (src_cvc source))
                  | _ \<Rightarrow> None))),
     mp_metadata = rq_metadata request \<rparr>"

text \<open>The payment object of the provider's response body, amounts in halalas.\<close>

record MoyasarPayment =
  my_id :: string
  my_status :: string
  my_amount :: number
  my_currency :: Currency
  my_fee :: "number option"
  my_source :: "ResponseSource option"
  my_created_at :: string
  my_updated_at :: "string option"
  my_description :: "string option"
  my_metadata :: "metadata option"
  my_callback_url :: "string option"

text \<open>
  \<^verbatim>\<open>statusMap[moyasarStatus] || PaymentStatus.FAILED\<close>. \<^verbatim>\<open>statusMap\<close> is an object literal:
  its own properties are the nine entries, and a property read that misses them goes on to
  \<^verbatim>\<open>Object.prototype\<close>, whose members (functions, and the prototype object itself under
  \<^verbatim>\<open>__proto__\<close>) are all truthy. So the value returned is a canonical status, or for
  these keys the inherited member, which is no \<^verbatim>\<open>PaymentStatus\<close>.
\<close>

datatype StatusValue = Canonical PaymentStatus | Inherited string

definition statusMap :: "(string \<times> PaymentStatus) list" where
  "statusMap = [
     (''initiated'', PENDING),
     (''pending'', PENDING),
     (''processing'', PROCESSING),
     (''authorized'', AUTHORIZED),
     (''paid'', PAID),
     (''failed'', FAILED),
     (''refunded'', REFUNDED),
     (''partially_refunded'', PARTIALLY_REFUNDED),
     (''voided'', VOIDED)]"

definition Object_prototype_keys :: "string list" where
  "Object_prototype_keys = [
     ''constructor'', ''__defineGetter__'', ''__defineSetter__'', ''hasOwnProperty'',
     ''__lookupGetter__'', ''__lookupSetter__'', ''isPrototypeOf'', ''propertyIsEnumerable'',
     ''toString'', ''valueOf'', ''__proto__'', ''toLocaleString'']"

definition mapStatus :: "string \<Rightarrow> StatusValue" where
  "mapStatus moyasarStatus =
     (case map_of statusMap moyasarStatus of
        Some st \<Rightarrow> Canonical st
      | None \<Rightarrow>
          if moyasarStatus \<in> set Object_prototype_keys then Inherited moyasarStatus
          else Canonical FAILED)"

definition mapMoyasarResponse :: "MoyasarPayment \<Rightarrow> StatusValue PaymentResponse" where
  "mapMoyasarResponse moyasarPayment = \<lparr>
     rs_id = my_id moyasarPayment,
     rs_status = mapStatus (my_status moyasarPayment),
     rs_amount = js_div (my_amount moyasarPayment) 100,
     rs_currency = my_currency moyasarPayment,
     rs_fee = (case my_fee moyasarPayment of
                 None \<Rightarrow> None
               | Some fee \<Rightarrow> if fee = 0 then None else Some (js_div fee 100)),
     rs_source = my_source moyasarPayment,
     rs_created_at = my_created_at moyasarPayment,
     rs_updated_at = my_updated_at moyasarPayment,
     rs_description = my_description moyasarPayment,
     rs_metadata = my_metadata moyasarPayment,
     rs_callback_url = my_callback_url moyasarPayment \<rparr>"


section \<open>Example data\<close>

text \<open>
  A ledger row of 100.50 SAR in a given status, a connector whose provider accepts every
  call, one whose provider declines every call, and requests for them.
\<close>

definition example_transaction :: "PaymentStatus \<Rightarrow> Transaction" where
  "example_transaction st = \<lparr>
     tx_id = ''tx-1'',
     tx_merchant_id = ''merchant-1'',
     tx_psp_provider = MOYASAR,
     tx_psp_transaction_id = ''pay-1'',
     tx_amount = 201 / 2,
     tx_currency = SAR,
     tx_status = st,
     tx_payment_method = CREDITCARD,
     tx_card_token = None,
     tx_card_brand = None,
     tx_card_last_four = None,
     tx_description = None,
     tx_fee = 0,
     tx_metadata = None,
     tx_callback_url = None,
     tx_error_message = None,
     tx_psp_reference_number = None \<rparr>"

definition example_response :: "string \<Rightarrow> PaymentStatus \<Rightarrow> PaymentStatus PaymentResponse" where
  "example_response paymentId st = \<lparr>
     rs_id = paymentId,
     rs_status = st,
     rs_amount = 201 / 2,
     rs_currency = SAR,
     rs_fee = None,
     rs_source = None,
     rs_created_at = ''2024-02-10T12:00:00Z'',
     rs_updated_at = None,
     rs_description = None,
     rs_metadata = None,
     rs_callback_url = None \<rparr>"

definition accepting_connector :: Connector where
  "accepting_connector = \<lparr>
     connector_createPayment = (\<lambda>request. Inr (example_response ''pay-1'' PAID)),
     connector_getPayment = (\<lambda>paymentId. Inr (example_response paymentId PAID)),
     connector_refundPayment = (\<lambda>paymentId refundRequest. Inr \<lparr>
        rr_id = ''refund-1'',
        rr_payment_id = paymentId,
        rr_amount = or_number (Option.bind refundRequest rf_amount) (201 / 2),
        rr_status = ''refunded'',
        rr_created_at = ''2024-02-10T12:05:00Z'' \<rparr>) \<rparr>"

definition declining_connector :: Connector where
  "declining_connector = \<lparr>
     connector_createPayment = (\<lambda>request. Inl (Error ''Moyasar Error: Card declined'')),
     connector_getPayment = (\<lambda>paymentId. Inl (Error ''Moyasar Error: Card declined'')),
     connector_refundPayment =
       (\<lambda>paymentId refundRequest. Inl (Error ''Moyasar Error: Card declined'')) \<rparr>"

definition example_request :: PaymentRequest where
  "example_request = \<lparr>
     rq_amount = 201 / 2,
     rq_currency = SAR,
     rq_description = None,
     rq_callback_url = None,
     rq_source = None,
     rq_metadata = None \<rparr>"

definition partial_refund :: "RefundRequest option" where
  "partial_refund = Some \<lparr> rf_amount = Some (201 / 4), rf_reason = None \<rparr>"

definition full_refund :: "RefundRequest option" where
  "full_refund = Some \<lparr> rf_amount = Some (201 / 2), rf_reason = None \<rparr>"

definition example_merchant :: "string \<Rightarrow> string \<Rightarrow> Merchant" where
  "example_merchant merchantId apiKey = \<lparr>
     m_id = merchantId,
     m_name = merchantId,
     m_email = merchantId @ ''@example.com'',
     m_api_key = apiKey,
     m_webhook_url = None,
     m_webhook_secret = None,
     m_active = True \<rparr>"

definition example_merchants :: "Merchant list" where
  "example_merchants =
     [example_merchant ''merchant-1'' ''key-1'', example_merchant ''merchant-2'' ''key-2'']"

text \<open>
  A runtime with a secret configured. Its digest and its serialisers are stand-ins for the
  library functions: enough to tell the matching signature from any other.
\<close>

definition example_runtime :: Runtime where
  "example_runtime = \<lparr>
     MOYASAR_WEBHOOK_SECRET = Some ''whsec-1'',
     hmac_sha256_hex = (\<lambda>key data. ''mac:'' @ key @ '':'' @ data),
     stringify_event = ev_type,
     stringify_payload = mw_event \<rparr>"

definition example_world :: "PaymentStatus \<Rightarrow> World" where
  "example_world st = \<lparr>
     transactions = [example_transaction st],
     merchants = example_merchants,
     outbox = [] \<rparr>"

definition example_data :: "string \<Rightarrow> PaymentData" where
  "example_data paymentId = \<lparr>
     pd_id = paymentId,
     pd_message = None,
     pd_refunded_amount = Some 5025 \<rparr>"

definition example_event :: "string \<Rightarrow> string \<Rightarrow> WebhookEvent" where
  "example_event ty paymentId = \<lparr> ev_type = ty, ev_data = Some (example_data paymentId) \<rparr>"

definition example_api_request :: "string \<Rightarrow> ApiRequest" where
  "example_api_request apiKey = \<lparr>
     hr_authorization = Some (''Bearer '' @ apiKey),
     hr_id = ''tx-1'',
     hr_refund = partial_refund \<rparr>"


definition example_moyasar_payment :: MoyasarPayment where
  "example_moyasar_payment = \<lparr>
     my_id = ''pay-1'',
     my_status = ''paid'',
     my_amount = 10050,
     my_currency = SAR,
     my_fee = None,
     my_source = None,
     my_created_at = ''2024-02-10T12:00:00Z'',
     my_updated_at = None,
     my_description = None,
     my_metadata = None,
     my_callback_url = None \<rparr>"


section \<open>Properties of the number model\<close>

text \<open>
  The binade of a non-zero \<open>x\<close> holds it, so \<open>fl64\<close> rounds to a significand of 53 bits;
  rounding moves a value by at most half a unit in the last place, that is by at most
  \<open>|x| / 2^53\<close>.
\<close>

lemma round_half_even_error: "\<bar>of_int (round_half_even m) - m\<bar> \<le> 1 / 2"
proof -
  have "of_int \<lfloor>m\<rfloor> \<le> m" "m < of_int \<lfloor>m\<rfloor> + 1" by linarith+
  then show ?thesis unfolding round_half_even_def Let_def by auto
qed

lemma binade_lower:
  assumes "x \<noteq> 0"
  shows "2 powi (binade x) \<le> \<bar>x\<bar>"
proof -
  obtain p q where pq: "quotient_of \<bar>x\<bar> = (p, q)" by force
  have q: "0 < q" using quotient_of_denom_pos [OF pq] .
  have x: "\<bar>x\<bar> = of_int p / of_int q" using quotient_of_div [OF pq] .
  have p: "0 < p"
  proof -
    have "0 < \<bar>x\<bar>" using assms by simp
    then have "0 < (of_int p :: rat) / of_int q" using x by simp
    with q show ?thesis by (simp add: zero_less_divide_iff)
  qed
  define d where "d = bitlen p - bitlen q"
  have b: "binade x = (if 2 powi d \<le> \<bar>x\<bar> then d else d - 1)"
    unfolding binade_def pq d_def by (simp add: Let_def)
  show ?thesis
  proof (cases "2 powi d \<le> \<bar>x\<bar>")
    case True
    with b show ?thesis by simp
  next
    case False
    have bp: "1 \<le> bitlen p" using p by (auto simp: bitlen_alt_def)
    have lo: "(2::int) ^ nat (bitlen p - 1) \<le> p" using bitlen_bounds [OF p] by simp
    have hi: "q < (2::int) ^ nat (bitlen q)" using bitlen_bounds [OF q] by simp
    have lo': "(2::rat) ^ nat (bitlen p - 1) \<le> of_int p"
      using lo by (metis of_int_le_iff of_int_numeral of_int_power)
    have hi': "(of_int q :: rat) \<le> 2 ^ nat (bitlen q)"
      using hi by (metis less_imp_le of_int_le_iff of_int_numeral of_int_power)
    have e1: "(2::rat) powi (bitlen p - 1) = 2 ^ nat (bitlen p - 1)"
      using bp by (simp add: power_int_nonneg_exp)
    have e2: "(2::rat) powi (bitlen q) = 2 ^ nat (bitlen q)"
      using bitlen_nonneg [of q] by (simp add: power_int_nonneg_exp)
    have "(2::rat) powi (d - 1) = 2 powi (bitlen p - 1) / 2 powi (bitlen q)"
      unfolding d_def using power_int_diff [of "2::rat" "bitlen p - 1" "bitlen q"] by (simp add: algebra_simps)
    also have "\<dots> = 2 ^ nat (bitlen p - 1) / 2 ^ nat (bitlen q)" using e1 e2 by simp
    also have "\<dots> \<le> of_int p / of_int q"
      using lo' hi' q p by (intro frac_le) auto
    finally show ?thesis using b False x by simp
  qed
qed

lemma binade_upper:
  assumes "x \<noteq> 0"
  shows "\<bar>x\<bar> < 2 powi (binade x + 1)"
proof -
  obtain p q where pq: "quotient_of \<bar>x\<bar> = (p, q)" by force
  have q: "0 < q" using quotient_of_denom_pos [OF pq] .
  have x: "\<bar>x\<bar> = of_int p / of_int q" using quotient_of_div [OF pq] .
  have p: "0 < p"
  proof -
    have "0 < \<bar>x\<bar>" using assms by simp
    then have "0 < (of_int p :: rat) / of_int q" using x by simp
    with q show ?thesis by (simp add: zero_less_divide_iff)
  qed
  define d where "d = bitlen p - bitlen q"
  have b: "binade x = (if 2 powi d \<le> \<bar>x\<bar> then d else d - 1)"
    unfolding binade_def pq d_def by (simp add: Let_def)
  show ?thesis
  proof (cases "2 powi d \<le> \<bar>x\<bar>")
    case False
    with b show ?thesis by simp
  next
    case True
    have bq: "1 \<le> bitlen q" using q by (auto simp: bitlen_alt_def)
    have hi: "p < (2::int) ^ nat (bitlen p)" using bitlen_bounds [OF p] by simp
    have lo: "(2::int) ^ nat (bitlen q - 1) \<le> q" using bitlen_bounds [OF q] by simp
    have hi': "(of_int p :: rat) < 2 ^ nat (bitlen p)"
      using hi by (metis of_int_less_iff of_int_numeral of_int_power)
    have lo': "(2::rat) ^ nat (bitlen q - 1) \<le> of_int q"
      using lo by (metis of_int_le_iff of_int_numeral of_int_power)
    have e1: "(2::rat) powi (bitlen p) = 2 ^ nat (bitlen p)"
      using bitlen_nonneg [of p] by (simp add: power_int_nonneg_exp)
    have e2: "(2::rat) powi (bitlen q - 1) = 2 ^ nat (bitlen q - 1)"
      using bq by (simp add: power_int_nonneg_exp)
    have "of_int p / of_int q < (2::rat) ^ nat (bitlen p) / 2 ^ nat (bitlen q - 1)"
      using hi' lo' q p by (intro frac_less) auto
    also have "\<dots> = 2 powi (bitlen p) / 2 powi (bitlen q - 1)" using e1 e2 by simp
    also have "\<dots> = 2 powi (d + 1)"
      unfolding d_def using power_int_diff [of "2::rat" "bitlen p" "bitlen q - 1"]
      by (simp add: algebra_simps)
    finally show ?thesis using b True x by simp
  qed
qed

lemma fl64_ulp_error:
  assumes "x \<noteq> 0"
  shows "\<bar>fl64 x - x\<bar> \<le> 2 powi (binade x - 53)"
proof -
  define ulp :: rat where "ulp = 2 powi (binade x - 52)"
  have ulp: "0 < ulp" unfolding ulp_def by simp
  have f: "fl64 x = of_int (round_half_even (x / ulp)) * ulp"
    using assms unfolding fl64_def ulp_def by (simp add: Let_def)
  have "fl64 x - x = (of_int (round_half_even (x / ulp)) - x / ulp) * ulp"
    using ulp f by (simp add: algebra_simps)
  then have "\<bar>fl64 x - x\<bar> = \<bar>of_int (round_half_even (x / ulp)) - x / ulp\<bar> * ulp"
    using ulp by (simp add: abs_mult)
  also have "\<dots> \<le> (1 / 2) * ulp"
    using round_half_even_error [of "x / ulp"] ulp by (intro mult_right_mono) auto
  also have "\<dots> = 2 powi (binade x - 53)"
  proof -
    have "(2::rat) powi (binade x - 52) = 2 powi (binade x - 53) * 2"
      using power_int_add [of "2::rat" "binade x - 53" 1] by simp
    then show ?thesis unfolding ulp_def by simp
  qed
  finally show ?thesis .
qed

lemma fl64_error: "\<bar>fl64 x - x\<bar> \<le> \<bar>x\<bar> / 2 ^ 53"
proof (cases "x = 0")
  case True
  then show ?thesis by (simp add: fl64_def)
next
  case False
  have "(2::rat) powi (binade x - 53) = 2 powi (binade x) / 2 powi 53"
    using power_int_diff [of "2::rat" "binade x" 53] by simp
  then have "(2::rat) powi (binade x - 53) = 2 powi (binade x) / 2 ^ 53" by simp
  also have "\<dots> \<le> \<bar>x\<bar> / 2 ^ 53"
    using binade_lower [OF False] by (intro divide_right_mono) auto
  finally show ?thesis using fl64_ulp_error [OF False] by linarith
qed

text \<open>
  Well-known values: 0.1 is not a binary fraction, \<^verbatim>\<open>0.57 * 100\<close> falls short of 57, and
  \<^verbatim>\<open>Math.round(1.005 * 100)\<close> is 100.
\<close>

lemma fl64_examples:
  "fl64 (1 / 10) = 3602879701896397 / 36028797018963968"
  "js_mul (fl64 (57 / 100)) 100 = 8022036836253695 / 140737488355328"
  "Math_round (js_mul (fl64 (1005 / 1000)) 100) = 100"
  by code_simp+

text \<open>
  Within a known binade the rounded value is the multiple of the unit in the last place
  nearest to the exact one.
\<close>

lemma two_powi_less_imp: "(2::rat) powi b < 2 powi c \<Longrightarrow> b < c"
proof (rule ccontr)
  assume l: "(2::rat) powi b < 2 powi c" and "\<not> b < c"
  then have "c \<le> b" by simp
  then have "(2::rat) powi c \<le> 2 powi b" by (intro power_int_increasing) auto
  with l show False by linarith
qed

lemma two_powi_le_abs_nonzero: "(2::rat) powi e \<le> \<bar>x\<bar> \<Longrightarrow> x \<noteq> 0"
proof
  assume "(2::rat) powi e \<le> \<bar>x\<bar>" and "x = 0"
  then have "(2::rat) powi e \<le> 0" by simp
  moreover have "(0::rat) < 2 powi e" by simp
  ultimately show False by linarith
qed

lemma binade_unique:
  assumes "2 powi e \<le> \<bar>x\<bar>" and "\<bar>x\<bar> < 2 powi (e + 1)"
  shows "binade x = e"
proof -
  have nz: "x \<noteq> 0"
  proof
    assume "x = 0"
    with assms(1) have "(2::rat) powi e \<le> 0" by simp
    moreover have "(0::rat) < 2 powi e" by simp
    ultimately show False by linarith
  qed
  have "(2::rat) powi (binade x) < 2 powi (e + 1)"
    using binade_lower [OF nz] assms(2) by linarith
  then have 1: "binade x < e + 1" by (rule two_powi_less_imp)
  have "(2::rat) powi e < 2 powi (binade x + 1)"
    using binade_upper [OF nz] assms(1) by linarith
  then have 2: "e < binade x + 1" by (rule two_powi_less_imp)
  from 1 2 show ?thesis by linarith
qed

lemma round_half_even_nearest:
  assumes "\<bar>m - of_int j\<bar> < 1 / 2"
  shows "round_half_even m = j"
proof -
  have "\<bar>of_int (round_half_even m) - m\<bar> \<le> 1 / 2" by (rule round_half_even_error)
  with assms have "\<bar>(of_int (round_half_even m) :: rat) - of_int j\<bar> < 1" by linarith
  then have "\<bar>(of_int (round_half_even m - j) :: rat)\<bar> < 1" by simp
  then have "\<bar>round_half_even m - j\<bar> < 1"
    by (metis of_int_abs of_int_less_1_iff)
  then show ?thesis by linarith
qed

lemma round_half_even_tie:
  "round_half_even (of_int f + 1 / 2) = (if even f then f else f + 1)"
proof -
  have "\<lfloor>(of_int f :: rat) + 1 / 2\<rfloor> = f" by linarith
  then show ?thesis unfolding round_half_even_def by (simp add: Let_def)
qed

lemma fl64_grid:
  assumes "2 powi e \<le> \<bar>x\<bar>" and "\<bar>x\<bar> < 2 powi (e + 1)"
  shows "fl64 x = of_int (round_half_even (x / 2 powi (e - 52))) * 2 powi (e - 52)"
proof -
  have b: "binade x = e" using assms by (rule binade_unique)
  have nz: "x \<noteq> 0" using assms(1) by (rule two_powi_le_abs_nonzero)
  show ?thesis using nz b unfolding fl64_def by (simp add: Let_def)
qed

lemma fl64_nearest:
  assumes "2 powi e \<le> \<bar>x\<bar>" and "\<bar>x\<bar> < 2 powi (e + 1)"
    and "\<bar>x - of_int j * 2 powi (e - 52)\<bar> < 2 powi (e - 52) / 2"
  shows "fl64 x = of_int j * 2 powi (e - 52)"
proof -
  define ulp :: rat where "ulp = 2 powi (e - 52)"
  have ulp: "0 < ulp" unfolding ulp_def by simp
  have b: "binade x = e" using assms(1,2) by (rule binade_unique)
  have nz: "x \<noteq> 0" using assms(1) by (rule two_powi_le_abs_nonzero)
  have f: "fl64 x = of_int (round_half_even (x / ulp)) * ulp"
    using nz b unfolding fl64_def ulp_def by (simp add: Let_def)
  have "\<bar>x / ulp - of_int j\<bar> = \<bar>x - of_int j * ulp\<bar> / ulp"
    using ulp by (simp add: field_simps abs_if)
  also have "\<dots> < (ulp / 2) / ulp"
    using assms(3) ulp unfolding ulp_def by (intro divide_strict_right_mono) auto
  also have "\<dots> = 1 / 2" using ulp by simp
  finally have "round_half_even (x / ulp) = j" by (rule round_half_even_nearest)
  with f show ?thesis unfolding ulp_def by simp
qed

lemma fl64_binade_error:
  assumes "2 powi e \<le> \<bar>x\<bar>" and "\<bar>x\<bar> < 2 powi (e + 1)"
  shows "\<bar>fl64 x - x\<bar> \<le> 2 powi (e - 53)"
proof -
  have b: "binade x = e" using assms by (rule binade_unique)
  have nz: "x \<noteq> 0" using assms(1) by (rule two_powi_le_abs_nonzero)
  show ?thesis using fl64_ulp_error [OF nz] b by simp
qed

lemma fl64_below_error:
  assumes "\<bar>x\<bar> < 2 powi E"
  shows "\<bar>fl64 x - x\<bar> \<le> 2 powi (E - 54)"
proof (cases "x = 0")
  case True
  then show ?thesis by (simp add: fl64_def)
next
  case False
  have "(2::rat) powi (binade x) < 2 powi E"
    using binade_lower [OF False] assms by linarith
  then have "binade x < E" by (rule two_powi_less_imp)
  then have "binade x - 53 \<le> E - 54" by simp
  then have "(2::rat) powi (binade x - 53) \<le> 2 powi (E - 54)"
    by (intro power_int_increasing) auto
  with fl64_ulp_error [OF False] show ?thesis by linarith
qed

lemma Math_round_int: "Math_round (of_int k) = of_int k"
proof -
  have "\<lfloor>(of_int k :: rat) + 1 / 2\<rfloor> = k" by linarith
  then show ?thesis unfolding Math_round_def by simp
qed

lemma Math_round_half: "Math_round (of_int k + 1 / 2) = of_int k + 1"
proof -
  have "(of_int k :: rat) + 1 / 2 + 1 / 2 = of_int (k + 1)" by simp
  then show ?thesis unfolding Math_round_def by (metis floor_of_int of_int_add of_int_1)
qed

lemma Math_round_minus_half: "Math_round (of_int k - 1 / 2) = of_int k"
proof -
  have "(of_int k :: rat) - 1 / 2 + 1 / 2 = of_int k" by simp
  then show ?thesis unfolding Math_round_def by simp
qed

text \<open>
  Halalas to riyals and back. Below \<open>100 * 2^45\<close> in magnitude the two roundings together
  move a whole number of halalas by less than a half, and \<^verbatim>\<open>Math.round\<close> restores it.
\<close>

lemma halalas_exact_small:
  fixes k :: int
  assumes "\<bar>k\<bar> < 100 * 2 ^ 45"
  shows "Math_round (js_mul (js_div (of_int k) 100) 100) = of_int k"
proof -
  define N :: rat where "N = of_int k"
  define y where "y = fl64 (N / 100)"
  define z where "z = fl64 (y * 100)"
  have "(of_int \<bar>k\<bar> :: rat) < of_int (100 * 2 ^ 45)" using assms by (simp only: of_int_less_iff)
  then have N: "\<bar>N\<bar> < 3518437208883200" unfolding N_def by simp
  then have "\<bar>N / 100\<bar> < 2 powi 45" by simp
  then have "\<bar>y - N / 100\<bar> \<le> 2 powi (45 - 54)" unfolding y_def by (rule fl64_below_error)
  then have ey: "\<bar>y - N / 100\<bar> \<le> 1 / 512" by simp
  have e1: "\<bar>y * 100 - N\<bar> \<le> 100 / 512"
  proof -
    have "\<bar>y * 100 - N\<bar> = \<bar>y - N / 100\<bar> * 100" by (simp add: abs_if)
    with ey show ?thesis by linarith
  qed
  have "\<bar>y * 100\<bar> < 4503599627370496" using e1 N by linarith
  then have "\<bar>y * 100\<bar> < 2 powi 52" by simp
  then have "\<bar>z - y * 100\<bar> \<le> 2 powi (52 - 54)" unfolding z_def by (rule fl64_below_error)
  then have ez: "\<bar>z - y * 100\<bar> \<le> 1 / 4" by simp
  have "\<bar>z - N\<bar> < 1 / 2" using e1 ez by linarith
  then have "of_int k \<le> z + 1 / 2" "z + 1 / 2 < of_int k + 1"
    unfolding N_def by linarith+
  then have "\<lfloor>z + 1 / 2\<rfloor> = k" by linarith
  then show ?thesis
    unfolding Math_round_def js_mul_def js_div_def z_def y_def N_def by simp
qed

text \<open>
  From \<open>2^52\<close> on the product is rounded to a whole number, and the division has moved
  it by less than a half as long as the riyals are below \<open>2^46\<close>.
\<close>

lemma halalas_exact_large:
  fixes k :: int
  assumes "2 ^ 52 < k" and "k < 100 * 2 ^ 46"
  shows "Math_round (js_mul (js_div (of_int k) 100) 100) = of_int k"
proof -
  define N :: rat where "N = of_int k"
  define y where "y = fl64 (N / 100)"
  from assms(1) have "2 ^ 52 + 1 \<le> k" by linarith
  then have "(of_int (2 ^ 52 + 1) :: rat) \<le> of_int k" by (simp only: of_int_le_iff)
  then have lo: "4503599627370497 \<le> N" unfolding N_def by simp
  from assms(2) have "k \<le> 100 * 2 ^ 46 - 1" by linarith
  then have "(of_int k :: rat) \<le> of_int (100 * 2 ^ 46 - 1)" by (simp only: of_int_le_iff)
  then have hi: "N \<le> 7036874417766399" unfolding N_def by simp
  have "35184372088832 \<le> \<bar>N / 100\<bar>" using lo by simp
  then have b1: "2 powi 45 \<le> \<bar>N / 100\<bar>" by simp
  have "\<bar>N / 100\<bar> < 70368744177664" using lo hi by simp
  then have b2: "\<bar>N / 100\<bar> < 2 powi (45 + 1)" by simp
  have "\<bar>y - N / 100\<bar> \<le> 2 powi (45 - 53)" unfolding y_def using b1 b2 by (rule fl64_binade_error)
  then have ey: "\<bar>y - N / 100\<bar> \<le> 1 / 256" by simp
  have e1: "\<bar>y * 100 - N\<bar> \<le> 100 / 256"
  proof -
    have "\<bar>y * 100 - N\<bar> = \<bar>y - N / 100\<bar> * 100" by (simp add: abs_if)
    with ey show ?thesis by linarith
  qed
  have "4503599627370496 \<le> \<bar>y * 100\<bar>" using e1 lo by linarith
  then have c1: "2 powi 52 \<le> \<bar>y * 100\<bar>" by simp
  have "\<bar>y * 100\<bar> < 9007199254740992" using e1 lo hi by linarith
  then have c2: "\<bar>y * 100\<bar> < 2 powi (52 + 1)" by simp
  have c3: "\<bar>y * 100 - of_int k * 2 powi (52 - 52)\<bar> < 2 powi (52 - 52) / 2"
    using e1 unfolding N_def by simp
  have "fl64 (y * 100) = of_int k * 2 powi (52 - 52)" using c1 c2 c3 by (rule fl64_nearest)
  then have "fl64 (y * 100) = of_int k" by simp
  then show ?thesis
    unfolding js_mul_def js_div_def y_def N_def by (simp add: Math_round_int)
qed

text \<open>
  In between, products are rounded to halves: a product that ends on \<open>k + 1/2\<close> becomes
  \<open>k + 1\<close>, as for 40000000000000.02. The halalas of the decimal \<open>k / 100\<close> are then
  \<open>k + 1\<close>, and these come back unchanged.
\<close>

lemma halalas_inexact_example:
  "Math_round (js_mul (fl64 (4000000000000002 / 100)) 100) = 4000000000000003"
  by code_simp

lemma halalas_stable_mid:
  fixes k :: int
  assumes "100 * 2 ^ 45 \<le> k" and "k \<le> 2 ^ 52 - 2"
  shows "Math_round (js_mul (js_div (Math_round (js_mul (fl64 (of_int k / 100)) 100)) 100) 100)
           = Math_round (js_mul (fl64 (of_int k / 100)) 100)"
proof -
  define N :: rat where "N = of_int k"
  define y where "y = fl64 (N / 100)"
  define r where "r = round_half_even ((N / 100) / 2 powi (45 - 52))"
  define d where "d = y * 100 - N"
  define x where "x = y * 100"
  have "(of_int (100 * 2 ^ 45) :: rat) \<le> of_int k" using assms(1) by (simp only: of_int_le_iff)
  then have lo: "3518437208883200 \<le> N" unfolding N_def by simp
  have "(of_int k :: rat) \<le> of_int (2 ^ 52 - 2)" using assms(2) by (simp only: of_int_le_iff)
  then have hi: "N \<le> 4503599627370494" unfolding N_def by simp
  have "35184372088832 \<le> \<bar>N / 100\<bar>" using lo by simp
  then have b1: "2 powi 45 \<le> \<bar>N / 100\<bar>" by simp
  have "\<bar>N / 100\<bar> < 70368744177664" using lo hi by simp
  then have b2: "\<bar>N / 100\<bar> < 2 powi (45 + 1)" by simp
  have "y = of_int r * 2 powi (45 - 52)" unfolding y_def r_def using b1 b2 by (rule fl64_grid)
  then have yr: "y = of_int r / 128" by simp
  have "\<bar>y - N / 100\<bar> \<le> 2 powi (45 - 53)" unfolding y_def using b1 b2 by (rule fl64_binade_error)
  then have ey: "\<bar>y - N / 100\<bar> \<le> 1 / 256" by simp
  have dd: "\<bar>d\<bar> \<le> 25 / 64"
  proof -
    have "\<bar>y * 100 - N\<bar> = \<bar>y - N / 100\<bar> * 100" by (simp add: abs_if)
    with ey show ?thesis unfolding d_def by linarith
  qed
  have xd: "x = N + d" unfolding x_def d_def by simp
  have "2251799813685248 \<le> \<bar>x\<bar>" using xd dd lo by linarith
  then have c1: "2 powi 51 \<le> \<bar>x\<bar>" by simp
  have "\<bar>x\<bar> < 4503599627370496" using xd dd lo hi by linarith
  then have c2: "\<bar>x\<bar> < 2 powi (51 + 1)" by simp
  have first: "Math_round (js_mul (fl64 (of_int k / 100)) 100) = Math_round (fl64 x)"
    unfolding js_mul_def x_def y_def N_def by simp
  have echo: "js_mul (js_div (of_int k) 100) 100 = fl64 x"
    unfolding js_mul_def js_div_def x_def y_def N_def by simp
  consider (near) "\<bar>d\<bar> < 1 / 4" | (tie_up) "d = 1 / 4" | (tie_down) "d = - (1 / 4)"
    | (below) "d < - (1 / 4)" | (above) "1 / 4 < d"
    by linarith
  then show ?thesis
  proof cases
    case near
    have "x - of_int (2 * k) * 2 powi (51 - 52) = d"
      using xd unfolding N_def by simp
    then have "\<bar>x - of_int (2 * k) * 2 powi (51 - 52)\<bar> < 1 / 4"
      using near by simp
    then have "\<bar>x - of_int (2 * k) * 2 powi (51 - 52)\<bar> < 2 powi (51 - 52) / 2"
      by simp
    with c1 c2 have "fl64 x = of_int (2 * k) * 2 powi (51 - 52)" by (rule fl64_nearest)
    then have "fl64 x = of_int k" by simp
    then have "Math_round (fl64 x) = of_int k" by (simp add: Math_round_int)
    with first echo show ?thesis by simp
  next
    case tie_up
    have "x / 2 powi (51 - 52) = of_int (2 * k) + 1 / 2"
      using tie_up xd unfolding N_def by simp
    then have "round_half_even (x / 2 powi (51 - 52)) = 2 * k"
      using round_half_even_tie [of "2 * k"] by simp
    moreover have "fl64 x = of_int (round_half_even (x / 2 powi (51 - 52))) * 2 powi (51 - 52)"
      using c1 c2 by (rule fl64_grid)
    ultimately have "fl64 x = of_int k" by simp
    then have "Math_round (fl64 x) = of_int k" by (simp add: Math_round_int)
    with first echo show ?thesis by simp
  next
    case tie_down
    have "x / 2 powi (51 - 52) = of_int (2 * k - 1) + 1 / 2"
      using tie_down xd unfolding N_def by simp
    then have "round_half_even (x / 2 powi (51 - 52)) = 2 * k"
      using round_half_even_tie [of "2 * k - 1"] by simp
    moreover have "fl64 x = of_int (round_half_even (x / 2 powi (51 - 52))) * 2 powi (51 - 52)"
      using c1 c2 by (rule fl64_grid)
    ultimately have "fl64 x = of_int k" by simp
    then have "Math_round (fl64 x) = of_int k" by (simp add: Math_round_int)
    with first echo show ?thesis by simp
  next
    case below
    have "x - of_int (2 * k - 1) * 2 powi (51 - 52) = d + 1 / 2"
      using xd unfolding N_def by (simp add: field_simps)
    then have "\<bar>x - of_int (2 * k - 1) * 2 powi (51 - 52)\<bar> < 1 / 4"
      using below dd by linarith
    then have "\<bar>x - of_int (2 * k - 1) * 2 powi (51 - 52)\<bar> < 2 powi (51 - 52) / 2"
      by simp
    with c1 c2 have "fl64 x = of_int (2 * k - 1) * 2 powi (51 - 52)" by (rule fl64_nearest)
    then have "fl64 x = of_int k - 1 / 2" by simp
    then have "Math_round (fl64 x) = of_int k" by (simp add: Math_round_minus_half)
    with first echo show ?thesis by simp
  next
    case above
    have "x - of_int (2 * k + 1) * 2 powi (51 - 52) = d - 1 / 2"
      using xd unfolding N_def by (simp add: field_simps)
    then have "\<bar>x - of_int (2 * k + 1) * 2 powi (51 - 52)\<bar> < 1 / 4"
      using above dd by linarith
    then have "\<bar>x - of_int (2 * k + 1) * 2 powi (51 - 52)\<bar> < 2 powi (51 - 52) / 2"
      by simp
    with c1 c2 have "fl64 x = of_int (2 * k + 1) * 2 powi (51 - 52)" by (rule fl64_nearest)
    then have "fl64 x = of_int k + 1 / 2" by simp
    then have n1: "Math_round (fl64 x) = of_int (k + 1)" by (simp add: Math_round_half)
    define y1 where "y1 = fl64 (of_int (k + 1) / 100)"
    define x1 where "x1 = y1 * 100"
    have "35184372088832 \<le> \<bar>(N + 1) / 100\<bar>" using lo by simp
    then have p1: "2 powi 45 \<le> \<bar>(N + 1) / 100\<bar>" by simp
    have "\<bar>(N + 1) / 100\<bar> < 70368744177664" using lo hi by simp
    then have p2: "\<bar>(N + 1) / 100\<bar> < 2 powi (45 + 1)" by simp
    have "(N + 1) / 100 - of_int (r + 1) * 2 powi (45 - 52) = 7 / 3200 - d / 100"
      using yr unfolding d_def by (simp add: field_simps)
    then have "\<bar>(N + 1) / 100 - of_int (r + 1) * 2 powi (45 - 52)\<bar> < 1 / 256"
      using above dd by linarith
    then have p3: "\<bar>(N + 1) / 100 - of_int (r + 1) * 2 powi (45 - 52)\<bar> < 2 powi (45 - 52) / 2"
      by simp
    have "fl64 ((N + 1) / 100) = of_int (r + 1) * 2 powi (45 - 52)" using p1 p2 p3 by (rule fl64_nearest)
    then have y1: "y1 = y + 1 / 128" unfolding y1_def N_def using yr by simp
    have x1: "x1 = (N + 1) + (d - 7 / 32)" unfolding x1_def y1 d_def by simp
    have "2251799813685248 \<le> \<bar>x1\<bar>" using x1 above dd lo by linarith
    then have q1: "2 powi 51 \<le> \<bar>x1\<bar>" by simp
    have "\<bar>x1\<bar> < 4503599627370496" using x1 above dd lo hi by linarith
    then have q2: "\<bar>x1\<bar> < 2 powi (51 + 1)" by simp
    have "x1 - of_int (2 * (k + 1)) * 2 powi (51 - 52) = d - 7 / 32"
      using x1 unfolding N_def by (simp add: field_simps)
    then have "\<bar>x1 - of_int (2 * (k + 1)) * 2 powi (51 - 52)\<bar> < 1 / 4"
      using above dd by linarith
    then have "\<bar>x1 - of_int (2 * (k + 1)) * 2 powi (51 - 52)\<bar> < 2 powi (51 - 52) / 2"
      by simp
    with q1 q2 have "fl64 x1 = of_int (2 * (k + 1)) * 2 powi (51 - 52)" by (rule fl64_nearest)
    then have "fl64 x1 = of_int (k + 1)" by simp
    then have "Math_round (fl64 x1) = of_int (k + 1)" by (simp only: Math_round_int)
    then have "Math_round (js_mul (js_div (of_int (k + 1)) 100) 100) = of_int (k + 1)"
      unfolding js_mul_def js_div_def x1_def y1_def by simp
    with first n1 show ?thesis by simp
  qed
qed

lemma halalas_stable_at_2_52:
  "Math_round (js_mul (js_div (Math_round (js_mul (fl64 (4503599627370495 / 100)) 100)) 100) 100)
     = Math_round (js_mul (fl64 (4503599627370495 / 100)) 100)"
  "Math_round (js_mul (js_div (Math_round (js_mul (fl64 (4503599627370496 / 100)) 100)) 100) 100)
     = Math_round (js_mul (fl64 (4503599627370496 / 100)) 100)"
  by code_simp+

text \<open>
  So the halalas computed for the number nearest to a decimal \<open>k / 100\<close> survive the way
  to riyals and back, for every \<open>k\<close> up to \<open>100 * 2^46\<close>: the riyals below \<open>2^46\<close>,
  where binary64 numbers are less than 0.01 apart.
\<close>

lemma halalas_no_drift:
  fixes k :: int
  assumes "- (100 * 2 ^ 45) < k" and "k < 100 * 2 ^ 46"
  shows "Math_round (js_mul (js_div (Math_round (js_mul (fl64 (of_int k / 100)) 100)) 100) 100)
           = Math_round (js_mul (fl64 (of_int k / 100)) 100)"
proof -
  have p45: "(100 * 2 ^ 45 :: int) = 3518437208883200" by simp
  have p52: "(2 ^ 52 :: int) = 4503599627370496" by simp
  consider (small) "\<bar>k\<bar> < 100 * 2 ^ 45"
    | (mid) "100 * 2 ^ 45 \<le> k" "k \<le> 2 ^ 52 - 2"
    | (edge1) "k = 4503599627370495"
    | (edge2) "k = 4503599627370496"
    | (large) "2 ^ 52 < k"
    using assms(1) unfolding p45 p52 by linarith
  then show ?thesis
  proof cases
    case small
    then have "Math_round (js_mul (fl64 (of_int k / 100)) 100) = of_int k"
      using halalas_exact_small [of k] unfolding js_div_def by simp
    then show ?thesis using halalas_exact_small [OF small] by simp
  next
    case mid
    then show ?thesis by (rule halalas_stable_mid)
  next
    case edge1
    then show ?thesis using halalas_stable_at_2_52(1) by simp
  next
    case edge2
    then show ?thesis using halalas_stable_at_2_52(2) by simp
  next
    case large
    then have e: "Math_round (js_mul (js_div (of_int k) 100) 100) = of_int k"
      using assms(2) by (rule halalas_exact_large)
    then have "Math_round (js_mul (fl64 (of_int k / 100)) 100) = of_int k"
      unfolding js_div_def by simp
    then show ?thesis using e by simp
  qed
qed


section \<open>Properties of the amount column\<close>

text \<open>
  The digit count and the decimal exponent are what their names say.
\<close>

lemma decimal_digits_bounds:
  "0 < p \<Longrightarrow> 1 \<le> decimal_digits p \<and> 10 ^ nat (decimal_digits p - 1) \<le> p \<and> p < 10 ^ nat (decimal_digits p)"
proof (induction p rule: decimal_digits.induct)
  case (1 p)
  show ?case
  proof (cases "p < 10")
    case True
    then have "decimal_digits p = 1" by (subst decimal_digits.simps) simp
    with True 1(2) show ?thesis by simp
  next
    case False
    then have pos: "0 < p div 10" by simp
    define n where "n = decimal_digits (p div 10)"
    have ih: "1 \<le> n \<and> 10 ^ nat (n - 1) \<le> p div 10 \<and> p div 10 < 10 ^ nat n"
      using 1(1) [OF False pos] unfolding n_def .
    have d: "decimal_digits p = n + 1"
      using False unfolding n_def by (subst decimal_digits.simps) simp
    have e: "nat (n + 1 - 1) = Suc (nat (n - 1))" "nat (n + 1) = Suc (nat n)"
      using ih by auto
    have lo: "10 * 10 ^ nat (n - 1) \<le> p" using ih by linarith
    have hi: "p < 10 * 10 ^ nat n" using ih by linarith
    show ?thesis unfolding d e using ih lo hi by simp
  qed
qed

lemma ten_powi_less_imp: "(10::rat) powi b < 10 powi c \<Longrightarrow> b < c"
proof (rule ccontr)
  assume l: "(10::rat) powi b < 10 powi c" and "\<not> b < c"
  then have "c \<le> b" by simp
  then have "(10::rat) powi c \<le> 10 powi b" by (intro power_int_increasing) auto
  with l show False by linarith
qed

lemma decimal_exponent_bounds:
  assumes "0 < x"
  shows "10 powi (decimal_exponent x - 1) \<le> x \<and> x < 10 powi (decimal_exponent x)"
proof -
  obtain p q where pq: "quotient_of x = (p, q)" by force
  have q: "0 < q" using quotient_of_denom_pos [OF pq] .
  have x: "x = of_int p / of_int q" using quotient_of_div [OF pq] .
  have p: "0 < p"
  proof -
    have "0 < (of_int p :: rat) / of_int q" using x assms by simp
    with q show ?thesis by (simp add: zero_less_divide_iff)
  qed
  define d where "d = decimal_digits p - decimal_digits q"
  have b: "decimal_exponent x = (if x < 10 powi d then d else d + 1)"
    unfolding decimal_exponent_def pq d_def by (simp add: Let_def)
  note bp = decimal_digits_bounds [OF p]
  note bq = decimal_digits_bounds [OF q]
  have plo: "(10::rat) ^ nat (decimal_digits p - 1) \<le> of_int p"
    using bp by (metis of_int_le_iff of_int_numeral of_int_power)
  have phi: "(of_int p :: rat) < 10 ^ nat (decimal_digits p)"
    using bp by (metis of_int_less_iff of_int_numeral of_int_power)
  have qlo: "(10::rat) ^ nat (decimal_digits q - 1) \<le> of_int q"
    using bq by (metis of_int_le_iff of_int_numeral of_int_power)
  have qhi: "(of_int q :: rat) \<le> 10 ^ nat (decimal_digits q)"
    using bq by (metis less_imp_le of_int_le_iff of_int_numeral of_int_power)
  have e1: "(10::rat) powi (decimal_digits p - 1) = 10 ^ nat (decimal_digits p - 1)"
    using bp by (simp add: power_int_nonneg_exp)
  have e2: "(10::rat) powi (decimal_digits q) = 10 ^ nat (decimal_digits q)"
    using bq by (simp add: power_int_nonneg_exp)
  have e3: "(10::rat) powi (decimal_digits p) = 10 ^ nat (decimal_digits p)"
    using bp by (simp add: power_int_nonneg_exp)
  have e4: "(10::rat) powi (decimal_digits q - 1) = 10 ^ nat (decimal_digits q - 1)"
    using bq by (simp add: power_int_nonneg_exp)
  have lower: "10 powi (d - 1) \<le> x"
  proof -
    have "(10::rat) powi (d - 1) = 10 powi (decimal_digits p - 1) / 10 powi (decimal_digits q)"
      unfolding d_def using power_int_diff [of "10::rat" "decimal_digits p - 1" "decimal_digits q"]
      by (simp add: algebra_simps)
    also have "\<dots> = 10 ^ nat (decimal_digits p - 1) / 10 ^ nat (decimal_digits q)"
      using e1 e2 by simp
    also have "\<dots> \<le> of_int p / of_int q"
      using plo qhi q p by (intro frac_le) auto
    finally show ?thesis using x by simp
  qed
  have upper: "x < 10 powi (d + 1)"
  proof -
    have "of_int p / of_int q < (10::rat) ^ nat (decimal_digits p) / 10 ^ nat (decimal_digits q - 1)"
      using phi qlo q p by (intro frac_less) auto
    also have "\<dots> = 10 powi (decimal_digits p) / 10 powi (decimal_digits q - 1)"
      using e3 e4 by simp
    also have "\<dots> = 10 powi (d + 1)"
      unfolding d_def using power_int_diff [of "10::rat" "decimal_digits p" "decimal_digits q - 1"]
      by (simp add: algebra_simps)
    finally show ?thesis using x by simp
  qed
  show ?thesis
  proof (cases "x < 10 powi d")
    case True
    with b lower show ?thesis by simp
  next
    case False
    with b upper show ?thesis by simp
  qed
qed

text \<open>
  Two different decimals with two places, one of them below \<open>10^13\<close>, are far enough apart
  to be rounded to different numbers.
\<close>

lemma cents_separated:
  fixes i k :: int
  assumes "0 < k" and "k < 10 ^ 15" and "fl64 (of_int i / 100) = fl64 (of_int k / 100)"
  shows "i = k"
proof -
  define c :: rat where "c = of_int i / 100"
  define D :: rat where "D = of_int k / 100"
  define x where "x = fl64 D"
  have P: "(2::rat) ^ 53 = 9007199254740992" by simp
  have "(of_int k :: rat) < of_int (10 ^ 15)" using assms(2) by (simp only: of_int_less_iff)
  then have kb: "(of_int k :: rat) < 1000000000000000" by simp
  have "(0::rat) < of_int k" using assms(1) by simp
  then have D0: "0 < D" unfolding D_def by simp
  have D8: "D < 10000000000000" using kb unfolding D_def by simp
  have ec: "\<bar>x - c\<bar> \<le> \<bar>c\<bar> / 9007199254740992"
    using fl64_error [of c] assms(3) unfolding x_def c_def D_def P by simp
  have eD: "\<bar>x - D\<bar> \<le> \<bar>D\<bar> / 9007199254740992"
    using fl64_error [of D] unfolding x_def P by simp
  have "\<bar>c - D\<bar> < 1 / 100" using ec eD D0 D8 by linarith
  then have "\<bar>(of_int i :: rat) - of_int k\<bar> < 1" unfolding c_def D_def by linarith
  then have "\<bar>(of_int (i - k) :: rat)\<bar> < 1" by simp
  then have "\<bar>i - k\<bar> < 1" by (metis of_int_abs of_int_less_1_iff)
  then show ?thesis by linarith
qed

lemma fl64_cents_pos:
  fixes k :: int
  assumes "0 < k"
  shows "0 < fl64 (of_int k / 100)"
proof -
  define D :: rat where "D = of_int k / 100"
  have P: "(2::rat) ^ 53 = 9007199254740992" by simp
  have "(0::rat) < of_int k" using assms by simp
  then have D0: "0 < D" unfolding D_def by simp
  have "\<bar>fl64 D - D\<bar> \<le> \<bar>D\<bar> / 9007199254740992"
    using fl64_error [of D] unfolding P by simp
  with D0 show ?thesis unfolding D_def by linarith
qed

text \<open>
  So for the number nearest to the decimal \<open>k / 100\<close> the search for the shortest text
  finds that decimal: among the multiples of \<open>10^q\<close>, \<open>q \<ge> -2\<close>, no other one reads back
  as the number, and at \<open>q = -2\<close> the decimal itself is found.
\<close>

lemma shortest_at_cents:
  fixes k :: int
  assumes "0 < k" and "k < 10 ^ 15" and "- 2 \<le> q"
  shows "shortest_at (fl64 (of_int k / 100)) q = None \<or>
         shortest_at (fl64 (of_int k / 100)) q = Some (of_int k / 100)"
proof -
  define x where "x = fl64 (of_int k / 100)"
  define u :: rat where "u = 10 powi q"
  define m where "m = \<lfloor>x / u\<rfloor>"
  define N where "N = nat (q + 2)"
  have u: "0 < u" unfolding u_def by simp
  have "(10::rat) powi (q + 2) = 10 powi q * 10 powi 2"
    by (rule power_int_add) simp
  then have "(10::rat) powi (q + 2) = u * 100" unfolding u_def by simp
  moreover have "(10::rat) powi (q + 2) = 10 ^ N"
    unfolding N_def using assms(3) by (simp add: power_int_nonneg_exp)
  ultimately have u100: "u = of_int (10 ^ N) / 100" by simp
  have lo: "of_int m * u = of_int (m * 10 ^ N) / 100" unfolding u100 by simp
  have hi: "of_int m * u + u = of_int ((m + 1) * 10 ^ N) / 100"
    unfolding u100 by (simp add: algebra_simps)
  have slo: "fl64 (of_int m * u) = x \<Longrightarrow> of_int m * u = of_int k / 100"
  proof -
    assume "fl64 (of_int m * u) = x"
    then have "fl64 (of_int (m * 10 ^ N) / 100) = fl64 (of_int k / 100)"
      unfolding lo x_def .
    then have "m * 10 ^ N = k" using assms(1,2) by (rule cents_separated [rotated 2])
    with lo show ?thesis by simp
  qed
  have shi: "fl64 (of_int m * u + u) = x \<Longrightarrow> of_int m * u + u = of_int k / 100"
  proof -
    assume "fl64 (of_int m * u + u) = x"
    then have "fl64 (of_int ((m + 1) * 10 ^ N) / 100) = fl64 (of_int k / 100)"
      unfolding hi x_def .
    then have "(m + 1) * 10 ^ N = k" using assms(1,2) by (rule cents_separated [rotated 2])
    with hi show ?thesis by simp
  qed
  have both: "\<not> (fl64 (of_int m * u) = x \<and> fl64 (of_int m * u + u) = x)"
    using slo shi u by auto
  have "shortest_at x q =
     (if 0 < of_int m * u \<and> fl64 (of_int m * u) = x then Some (of_int m * u)
      else if fl64 (of_int m * u + u) = x then Some (of_int m * u + u) else None)"
    using both unfolding shortest_at_def u_def [symmetric] m_def [symmetric] Let_def by auto
  then show ?thesis using slo shi unfolding x_def by auto
qed

lemma shortest_at_cents_found:
  fixes k :: int
  assumes "0 < k" and "k < 10 ^ 15"
  shows "shortest_at (fl64 (of_int k / 100)) (- 2) = Some (of_int k / 100)"
proof -
  define D :: rat where "D = of_int k / 100"
  define x where "x = fl64 D"
  define m where "m = \<lfloor>x / 10 powi (- 2)\<rfloor>"
  have P: "(2::rat) ^ 53 = 9007199254740992" by simp
  have u: "(10::rat) powi (- 2) = 1 / 100" by (simp add: power_int_minus)
  have "(of_int k :: rat) < of_int (10 ^ 15)" using assms(2) by (simp only: of_int_less_iff)
  then have kb: "(of_int k :: rat) < 1000000000000000" by simp
  have "(0::rat) < of_int k" using assms(1) by simp
  then have D0: "0 < D" unfolding D_def by simp
  have D8: "D < 10000000000000" using kb unfolding D_def by simp
  have eD: "\<bar>x - D\<bar> \<le> \<bar>D\<bar> / 9007199254740992"
    using fl64_error [of D] unfolding x_def P by simp
  have near: "\<bar>x * 100 - of_int k\<bar> < 1" using eD D0 D8 unfolding D_def by linarith
  have m100: "m = \<lfloor>x * 100\<rfloor>" unfolding m_def u by simp
  have "of_int m \<le> x * 100" "x * 100 < of_int m + 1" unfolding m100 by linarith+
  with near have "(of_int k :: rat) - 2 < of_int m" "(of_int m :: rat) < of_int k + 1" by linarith+
  then have "(of_int (k - 2) :: rat) < of_int m" "(of_int m :: rat) < of_int (k + 1)" by simp_all
  then have "k - 2 < m" "m < k + 1" by (simp_all only: of_int_less_iff)
  then have mk: "m = k \<or> m = k - 1" by linarith
  define lo :: rat where "lo = of_int m * 10 powi (- 2)"
  define hi :: rat where "hi = lo + 10 powi (- 2)"
  have lo: "m = k \<Longrightarrow> lo = D" unfolding lo_def u D_def by simp
  have hi: "m = k - 1 \<Longrightarrow> hi = D" unfolding hi_def lo_def u D_def by (simp add: algebra_simps)
  have sa: "shortest_at x (- 2) =
     (if 0 < lo \<and> fl64 lo = x \<and> fl64 hi = x
      then Some (if x - lo < hi - x \<or> (x - lo = hi - x \<and> even m) then lo else hi)
      else if 0 < lo \<and> fl64 lo = x then Some lo
      else if fl64 hi = x then Some hi
      else None)"
    by (simp only: shortest_at_def Let_def lo_def hi_def m_def)
  have "shortest_at x (- 2) \<noteq> None"
  proof (cases "m = k")
    case True
    then have "0 < lo" "fl64 lo = x" using lo D0 x_def by simp_all
    then show ?thesis unfolding sa by simp
  next
    case False
    with mk have "m = k - 1" by simp
    then have "fl64 hi = x" using hi x_def by simp
    then show ?thesis unfolding sa by simp
  qed
  then show ?thesis
    using shortest_at_cents [OF assms, of "- 2"] unfolding x_def D_def by auto
qed

lemma shortest_from_cents:
  fixes k :: int
  assumes "0 < k" and "k < 10 ^ 15"
  shows "- 2 \<le> q \<Longrightarrow> nat (q + 2) < digits \<Longrightarrow>
         shortest_from (fl64 (of_int k / 100)) q digits = Some (of_int k / 100)"
proof (induction digits arbitrary: q)
  case 0
  then show ?case by simp
next
  case (Suc digits)
  show ?case
  proof (cases "shortest_at (fl64 (of_int k / 100)) q")
    case (Some d)
    with shortest_at_cents [OF assms Suc.prems(1)] show ?thesis by simp
  next
    case None
    with shortest_at_cents_found [OF assms] have "q \<noteq> - 2" by auto
    with Suc.prems have "- 2 \<le> q - 1" "nat (q - 1 + 2) < digits" by linarith+
    then have "shortest_from (fl64 (of_int k / 100)) (q - 1) digits = Some (of_int k / 100)"
      by (rule Suc.IH)
    with None show ?thesis by simp
  qed
qed

lemma Number_toString_one_cent: "Number_toString (fl64 (1 / 100)) = 1 / 100"
  by code_simp

lemma Number_toString_cents:
  fixes k :: int
  assumes "0 \<le> k" and "k < 10 ^ 15"
  shows "Number_toString (fl64 (of_int k / 100)) = of_int k / 100"
proof -
  consider "k = 0" | "k = 1" | "2 \<le> k" using assms(1) by linarith
  then show ?thesis
  proof cases
    case 1
    then show ?thesis by (simp add: fl64_def Number_toString_def)
  next
    case 2
    then show ?thesis using Number_toString_one_cent by simp
  next
    case 3
    define D :: rat where "D = of_int k / 100"
    define x where "x = fl64 D"
    define n where "n = decimal_exponent x"
    have k: "0 < k" using 3 by simp
    have P: "(2::rat) ^ 53 = 9007199254740992" by simp
    have "(of_int 2 :: rat) \<le> of_int k" using 3 by (simp only: of_int_le_iff)
    then have D2: "2 / 100 \<le> D" unfolding D_def by simp
    have D8: "D \<le> 10000000000000 - 1 / 100"
    proof -
      have "k \<le> 10 ^ 15 - 1" using assms(2) by simp
      then have "(of_int k :: rat) \<le> of_int (10 ^ 15 - 1)" by (simp only: of_int_le_iff)
      then show ?thesis unfolding D_def by simp
    qed
    have eD: "\<bar>x - D\<bar> \<le> \<bar>D\<bar> / 9007199254740992"
      using fl64_error [of D] unfolding x_def P by simp
    have x0: "0 < x" using eD D2 by linarith
    have xlo: "10 powi (- 2) \<le> x"
    proof -
      have "1 / 100 \<le> x" using eD D2 by linarith
      then show ?thesis by (simp add: power_int_minus)
    qed
    have xhi: "x < 10 powi 13"
    proof -
      have "x < 10000000000000" using eD D2 D8 by linarith
      then show ?thesis by simp
    qed
    note b = decimal_exponent_bounds [OF x0, folded n_def]
    have "(10::rat) powi (- 2) < 10 powi n" using b xlo by linarith
    then have n1: "- 2 < n" by (rule ten_powi_less_imp)
    have "(10::rat) powi (n - 1) < 10 powi 13" using b xhi by linarith
    then have n2: "n - 1 < 13" by (rule ten_powi_less_imp)
    have "shortest_from x (n - 1) 17 = Some D"
      unfolding x_def D_def using n1 n2 by (intro shortest_from_cents [OF k assms(2)]) auto
    then show ?thesis
      using x0 unfolding Number_toString_def n_def [symmetric] x_def [symmetric] D_def [symmetric]
      unfolding x_def [symmetric] D_def [symmetric]
      by (simp add: n_def)
  qed
qed

text \<open>
  The column \<^verbatim>\<open>decimal(10, 2)\<close> therefore holds a two-decimal amount below \<open>10^8\<close> unchanged
  and refuses a larger one. An amount with more decimals is rounded: 1.005 is stored as
  1.01.
\<close>

lemma round_half_away_int: "0 \<le> k \<Longrightarrow> round_half_away (of_int k) = k"
proof -
  assume "0 \<le> k"
  moreover have "\<lfloor>(of_int k :: rat) + 1 / 2\<rfloor> = k" by linarith
  ultimately show ?thesis unfolding round_half_away_def by simp
qed

lemma decimal_10_2_cents:
  fixes k :: int
  assumes "0 \<le> k" and "k < 10 ^ 10"
  shows "decimal_10_2 (fl64 (of_int k / 100)) = Some (fl64 (of_int k / 100))"
proof -
  have "k < 10 ^ 15" using assms(2) by simp
  then have "Number_toString (fl64 (of_int k / 100)) * 100 = of_int k"
    using Number_toString_cents [OF assms(1)] by simp
  then have "round_half_away (Number_toString (fl64 (of_int k / 100)) * 100) = k"
    using round_half_away_int [OF assms(1)] by simp
  then show ?thesis using assms unfolding decimal_10_2_def by (simp add: Let_def)
qed

lemma decimal_10_2_overflow:
  fixes k :: int
  assumes "10 ^ 10 \<le> k" and "k < 10 ^ 15"
  shows "decimal_10_2 (fl64 (of_int k / 100)) = None"
proof -
  have k: "0 \<le> k" using assms(1) by simp
  have "Number_toString (fl64 (of_int k / 100)) * 100 = of_int k"
    using Number_toString_cents [OF k assms(2)] by simp
  then have "round_half_away (Number_toString (fl64 (of_int k / 100)) * 100) = k"
    using round_half_away_int [OF k] by simp
  then show ?thesis using assms unfolding decimal_10_2_def by (simp add: Let_def)
qed

lemma decimal_10_2_examples:
  "decimal_10_2 (201 / 2) = Some (201 / 2)"
  "decimal_10_2 (fl64 (1005 / 1000)) = Some (fl64 (101 / 100))"
  "decimal_10_2 (fl64 (12345678912 / 100)) = None"
  by code_simp+


section \<open>Properties of the string test\<close>

text \<open>\<open>str_includes\<close> is the substring test.\<close>

lemma take_eq_iff_prefix: "take (length sub) s = sub \<longleftrightarrow> (\<exists>ss. s = sub @ ss)"
  by (metis append_eq_conv_conj append_take_drop_id)

lemma str_includes_iff: "str_includes s sub \<longleftrightarrow> (\<exists>ps ss. s = ps @ sub @ ss)"
proof (induction s)
  case Nil
  then show ?case by auto
next
  case (Cons c cs)
  have "(\<exists>ps ss. c # cs = ps @ sub @ ss) \<longleftrightarrow>
        (\<exists>ss. c # cs = sub @ ss) \<or> (\<exists>ps ss. cs = ps @ sub @ ss)"
  proof
    assume "\<exists>ps ss. c # cs = ps @ sub @ ss"
    then obtain ps ss where e: "c # cs = ps @ sub @ ss" by blast
    show "(\<exists>ss. c # cs = sub @ ss) \<or> (\<exists>ps ss. cs = ps @ sub @ ss)"
    proof (cases ps)
      case Nil
      with e show ?thesis by auto
    next
      case (Cons p ps')
      with e have "cs = ps' @ sub @ ss" by simp
      then show ?thesis by blast
    qed
  next
    assume "(\<exists>ss. c # cs = sub @ ss) \<or> (\<exists>ps ss. cs = ps @ sub @ ss)"
    then show "\<exists>ps ss. c # cs = ps @ sub @ ss"
    proof
      assume "\<exists>ss. c # cs = sub @ ss"
      then obtain ss where "c # cs = [] @ sub @ ss" by auto
      then show ?thesis by blast
    next
      assume "\<exists>ps ss. cs = ps @ sub @ ss"
      then obtain ps ss where "c # cs = (c # ps) @ sub @ ss" by auto
      then show ?thesis by blast
    qed
  qed
  then show ?case using Cons.IH take_eq_iff_prefix [of sub "c # cs"] by simp
qed


section \<open>Properties of the repository and of the handlers\<close>

lemma findOne_id_Some: "findOne_id db i = Some t \<Longrightarrow> t \<in> set db \<and> tx_id t = i"
  unfolding findOne_id_def by (auto simp: find_Some_iff)

lemma findOne_psp_Some:
  "findOne_psp db p = Some t \<Longrightarrow> t \<in> set db \<and> tx_psp_transaction_id t = p"
  unfolding findOne_psp_def by (auto simp: find_Some_iff)

lemma find_map_replace:
  "\<exists>r \<in> set db. tx_id r = tx_id t \<Longrightarrow>
   find (\<lambda>r. tx_id r = tx_id t) (map (\<lambda>r. if tx_id r = tx_id t then t else r) db) = Some t"
  by (induction db) auto

lemma find_snoc_None:
  "find P xs = None \<Longrightarrow> find P (xs @ [y]) = (if P y then Some y else None)"
  by (induction xs) (auto split: if_splits)

text \<open>After \<open>save\<close>, the row read back under the entity's key is the entity.\<close>

lemma findOne_id_save: "findOne_id (save t db) (tx_id t) = Some t"
proof (cases "\<exists>r \<in> set db. tx_id r = tx_id t")
  case True
  then show ?thesis unfolding findOne_id_def save_def using find_map_replace by simp
next
  case False
  then have "find (\<lambda>r. tx_id r = tx_id t) db = None" by (simp add: find_None_iff)
  with False show ?thesis unfolding findOne_id_def save_def by (simp add: find_snoc_None)
qed

lemma status_after_save:
  "tx_id t' = tx_id t \<Longrightarrow> map_option tx_status (findOne_id (save t' db) (tx_id t)) = Some (tx_status t')"
  using findOne_id_save [of t' db] by simp

text \<open>Forwarding to the merchant writes to the outbox only.\<close>

lemma transactions_forward:
  "transactions (forwardWebhookToMerchant rt t ev d w) = transactions w"
  unfolding forwardWebhookToMerchant_def by (simp add: Let_def split: option.splits)

text \<open>What each handler writes when its lookup by the provider's id finds a row.\<close>

lemma handlePaymentPaid_found:
  "findOne_psp (transactions w) (pd_id d) = Some t \<Longrightarrow>
   transactions (handlePaymentPaid rt d w) = save (t\<lparr>tx_status := PAID\<rparr>) (transactions w)"
  unfolding handlePaymentPaid_def by (simp add: Let_def transactions_forward)

lemma handlePaymentFailed_found:
  "findOne_psp (transactions w) (pd_id d) = Some t \<Longrightarrow>
   transactions (handlePaymentFailed rt d w) =
     save (t\<lparr>tx_status := FAILED,
             tx_error_message := Some (or_string (pd_message d) ''Payment failed'')\<rparr>)
       (transactions w)"
  unfolding handlePaymentFailed_def by (simp add: Let_def transactions_forward)

lemma handlePaymentRefunded_found:
  "findOne_psp (transactions w) (pd_id d) = Some t \<Longrightarrow>
   transactions (handlePaymentRefunded rt d w) =
     save (t\<lparr>tx_status := (if refunded_in_full d t then REFUNDED else PARTIALLY_REFUNDED)\<rparr>)
       (transactions w)"
  unfolding handlePaymentRefunded_def by (simp add: Let_def transactions_forward)

text \<open>The controller's test for the refund guard's error recognises \<open>InvalidState\<close>.\<close>

lemma isInvalidState_InvalidState: "isInvalidState InvalidState"
  unfolding isInvalidState_def InvalidState_def by simp

lemma not_isNotFound_InvalidState: "\<not> isNotFound InvalidState"
  unfolding isNotFound_def InvalidState_def by simp

text \<open>So the controller answers a refund of a transaction that is not \<open>PAID\<close> with 400.\<close>

lemma PaymentController_refund_not_PAID:
  assumes "findOne_id db (hr_id req) = Some t" and "tx_status t \<noteq> PAID"
  shows "PaymentController_refundPayment c m req db
           = (\<lparr> ar_status = 400,
                 ar_body = Failure ''Invalid payment status for refund''
                   (Some (message InvalidState)) \<rparr>, db)"
proof -
  have "refundPayment c (hr_id req) (hr_refund req) db = (Inl InvalidState, db)"
    using assms unfolding refundPayment_def InvalidState_def rethrow_def by simp
  then show ?thesis
    unfolding PaymentController_refundPayment_def
    using isInvalidState_InvalidState not_isNotFound_InvalidState by simp
qed


section \<open>The orchestration service: create and refund\<close>

text \<open>
  C6. If the connector's \<open>createPayment\<close> call fails, \<open>createPayment\<close> fails with the
  provider's message behind its own prefix, and the ledger is the one it was called with:
  no row has been created.
\<close>

theorem createPayment_provider_failure:
  assumes "connector_createPayment moyasarConnector request = Inl e"
  shows "createPayment moyasarConnector uuid merchantId request db =
           (Inl (Error (''Failed to create payment: '' @ message e)), db)"
  using assms unfolding createPayment_def selectPSP_def rethrow_def by simp

theorem createPayment_provider_failure_witness:
  "connector_createPayment declining_connector example_request
     = Inl (Error ''Moyasar Error: Card declined'') \<and>
   createPayment declining_connector ''tx-2'' ''merchant-1'' example_request
       [example_transaction PAID]
     = (Inl (Error ''Failed to create payment: Moyasar Error: Card declined''),
        [example_transaction PAID])"
proof -
  have h: "connector_createPayment declining_connector example_request
             = Inl (Error ''Moyasar Error: Card declined'')"
    by (simp add: declining_connector_def)
  show ?thesis
    using h createPayment_provider_failure [OF h, of "''tx-2''" "''merchant-1''"
      "[example_transaction PAID]"]
    by simp
qed

text \<open>
  C4. A refund of a transaction whose status is anything but \<open>PAID\<close> fails with
  \<open>InvalidState\<close>, whatever the connector and the refund request, and the ledger, with the
  transaction in it, is left as it was.
\<close>

theorem refundPayment_guard:
  assumes "findOne_id db transactionId = Some transaction"
    and "tx_status transaction \<noteq> PAID"
  shows "refundPayment moyasarConnector transactionId refundRequest db = (Inl InvalidState, db)"
  using assms unfolding refundPayment_def InvalidState_def rethrow_def by simp

theorem refundPayment_guard_witness:
  "findOne_id [example_transaction PARTIALLY_REFUNDED] ''tx-1''
     = Some (example_transaction PARTIALLY_REFUNDED) \<and>
   tx_status (example_transaction PARTIALLY_REFUNDED) \<noteq> PAID \<and>
   refundPayment accepting_connector ''tx-1'' partial_refund [example_transaction PARTIALLY_REFUNDED]
     = (Inl InvalidState, [example_transaction PARTIALLY_REFUNDED])"
proof -
  have h1: "findOne_id [example_transaction PARTIALLY_REFUNDED] ''tx-1''
              = Some (example_transaction PARTIALLY_REFUNDED)"
    by (simp add: findOne_id_def example_transaction_def)
  have h2: "tx_status (example_transaction PARTIALLY_REFUNDED) \<noteq> PAID"
    by (simp add: example_transaction_def)
  show ?thesis
    using h1 h2 refundPayment_guard [OF h1 h2, of accepting_connector partial_refund]
    by simp
qed

text \<open>
  The sequence of C3 as the claim has it stops at its second step: after the partial refund
  of 50.25 on the transaction of 100.50 the status is \<open>PARTIALLY_REFUNDED\<close>, and the second
  refund of 50.25 is turned away by the guard instead of reaching \<open>REFUNDED\<close>.
\<close>

theorem second_partial_refund_counterexample:
  "refundPayment accepting_connector ''tx-1'' partial_refund [example_transaction PAID]
     = (Inr \<lparr> rr_id = ''refund-1'', rr_payment_id = ''pay-1'', rr_amount = 201 / 4,
               rr_status = ''refunded'', rr_created_at = ''2024-02-10T12:05:00Z'' \<rparr>,
        [example_transaction PARTIALLY_REFUNDED]) \<and>
   fst (refundPayment accepting_connector ''tx-1'' partial_refund
          [example_transaction PARTIALLY_REFUNDED]) = Inl InvalidState \<and>
   map tx_status (snd (refundPayment accepting_connector ''tx-1'' partial_refund
          [example_transaction PARTIALLY_REFUNDED])) = [PARTIALLY_REFUNDED]"
  by (simp add: refundPayment_def findOne_id_def example_transaction_def accepting_connector_def
      partial_refund_def or_number_def save_def InvalidState_def rethrow_def)

text \<open>
  C3, amended. On a \<open>PAID\<close> transaction a refund of an amount strictly between 0 and the
  transaction's amount, accepted by the provider, succeeds and sets the status
  \<open>PARTIALLY_REFUNDED\<close>; every refund attempt after it, with any request and whatever the
  provider would answer, fails with \<open>InvalidState\<close> and leaves the ledger as it is.
\<close>

theorem partial_refund_then_guard:
  assumes "findOne_id db i = Some t"
    and "tx_status t = PAID"
    and "tx_psp_provider t = MOYASAR"
    and "rf_amount rq = Some a"
    and "0 < a"
    and "a < tx_amount t"
    and "connector_refundPayment c (tx_psp_transaction_id t) (Some rq) = Inr resp"
  shows "refundPayment c i (Some rq) db
           = (Inr resp, save (t\<lparr>tx_status := PARTIALLY_REFUNDED\<rparr>) db) \<and>
         map_option tx_status (findOne_id (save (t\<lparr>tx_status := PARTIALLY_REFUNDED\<rparr>) db) i)
           = Some PARTIALLY_REFUNDED \<and>
         refundPayment c' i rq' (save (t\<lparr>tx_status := PARTIALLY_REFUNDED\<rparr>) db)
           = (Inl InvalidState, save (t\<lparr>tx_status := PARTIALLY_REFUNDED\<rparr>) db)"
proof -
  let ?t = "t\<lparr>tx_status := PARTIALLY_REFUNDED\<rparr>"
  have i: "tx_id t = i" using assms(1) findOne_id_Some by blast
  have first: "refundPayment c i (Some rq) db = (Inr resp, save ?t db)"
    using assms unfolding refundPayment_def or_number_def by simp
  have found: "findOne_id (save ?t db) i = Some ?t"
    using findOne_id_save [of ?t db] i by simp
  have later: "refundPayment c' i rq' (save ?t db) = (Inl InvalidState, save ?t db)"
    using found unfolding refundPayment_def InvalidState_def rethrow_def by simp
  from first found later show ?thesis by simp
qed

theorem partial_refund_then_guard_witness:
  "findOne_id [example_transaction PAID] ''tx-1'' = Some (example_transaction PAID) \<and>
   tx_status (example_transaction PAID) = PAID \<and>
   tx_psp_provider (example_transaction PAID) = MOYASAR \<and>
   tx_amount (example_transaction PAID) = 201 / 2 \<and>
   rf_amount \<lparr> rf_amount = Some (201 / 4), rf_reason = None \<rparr> = Some (201 / 4) \<and>
   (0 :: number) < 201 / 4 \<and>
   201 / 4 < tx_amount (example_transaction PAID) \<and>
   refundPayment accepting_connector ''tx-1''
       (Some \<lparr> rf_amount = Some (201 / 4), rf_reason = None \<rparr>) [example_transaction PAID]
     = (Inr \<lparr> rr_id = ''refund-1'', rr_payment_id = ''pay-1'', rr_amount = 201 / 4,
               rr_status = ''refunded'', rr_created_at = ''2024-02-10T12:05:00Z'' \<rparr>,
        [example_transaction PARTIALLY_REFUNDED]) \<and>
   refundPayment accepting_connector ''tx-1''
       (Some \<lparr> rf_amount = Some (201 / 4), rf_reason = None \<rparr>)
       [example_transaction PARTIALLY_REFUNDED]
     = (Inl InvalidState, [example_transaction PARTIALLY_REFUNDED])"
proof -
  let ?rq = "\<lparr> rf_amount = Some (201 / 4 :: number), rf_reason = None \<rparr>"
  let ?resp = "\<lparr> rr_id = ''refund-1'', rr_payment_id = ''pay-1'', rr_amount = 201 / 4,
               rr_status = ''refunded'', rr_created_at = ''2024-02-10T12:05:00Z'' \<rparr>"
  have h1: "findOne_id [example_transaction PAID] ''tx-1'' = Some (example_transaction PAID)"
    by (simp add: findOne_id_def example_transaction_def)
  have h2: "tx_status (example_transaction PAID) = PAID"
    by (simp add: example_transaction_def)
  have h3: "tx_psp_provider (example_transaction PAID) = MOYASAR"
    by (simp add: example_transaction_def)
  have h4: "rf_amount ?rq = Some (201 / 4)" by simp
  have h5: "(0 :: number) < 201 / 4" by simp
  have h6: "201 / 4 < tx_amount (example_transaction PAID)"
    by (simp add: example_transaction_def)
  have h7: "connector_refundPayment accepting_connector
      (tx_psp_transaction_id (example_transaction PAID)) (Some ?rq) = Inr ?resp"
    by (simp add: accepting_connector_def example_transaction_def or_number_def)
  have s: "save ((example_transaction PAID)\<lparr>tx_status := PARTIALLY_REFUNDED\<rparr>)
      [example_transaction PAID] = [example_transaction PARTIALLY_REFUNDED]"
    by (simp add: save_def example_transaction_def)
  have a: "tx_amount (example_transaction PAID) = 201 / 2"
    by (simp add: example_transaction_def)
  show ?thesis
    using h1 h2 h3 h4 h5 h6 a
      partial_refund_then_guard [OF h1 h2 h3 h4 h5 h6 h7, of accepting_connector "Some ?rq"]
    unfolding s by simp
qed

text \<open>
  C7. A refund of a \<open>PAID\<close> transaction that the provider accepts succeeds, and the status
  in the ledger afterwards is decided by the refund amount, for every request. With an
  amount in the request: \<open>REFUNDED\<close> if it is at least the transaction's amount,
  \<open>PARTIALLY_REFUNDED\<close> if it is below the transaction's amount and not 0 (so in
  particular if it is strictly between 0 and that amount). With the amount 0, with a
  request that has no amount and with no request body at all, the refund amount is the
  transaction's amount (\<^verbatim>\<open>refundRequest?.amount || transaction.amount\<close>) and the status is
  \<open>REFUNDED\<close>. The handler of \<^verbatim>\<open>payment_refunded\<close> classifies in the same way the event's
  refunded amount divided by 100; an event without that field gives \<open>PARTIALLY_REFUNDED\<close>.
\<close>

theorem refund_classification:
  assumes "findOne_id db i = Some t"
    and "tx_status t = PAID"
    and "tx_psp_provider t = MOYASAR"
    and "connector_refundPayment c (tx_psp_transaction_id t) rq = Inr resp"
    and "findOne_psp (transactions w) (pd_id d) = Some t'"
  shows "fst (refundPayment c i rq db) = Inr resp \<and>
         (Option.bind rq rf_amount = Some a \<and> tx_amount t \<le> a \<longrightarrow>
            map_option tx_status (findOne_id (snd (refundPayment c i rq db)) i) = Some REFUNDED) \<and>
         (Option.bind rq rf_amount = Some a \<and> a \<noteq> 0 \<and> a < tx_amount t \<longrightarrow>
            map_option tx_status (findOne_id (snd (refundPayment c i rq db)) i)
              = Some PARTIALLY_REFUNDED) \<and>
         (Option.bind rq rf_amount = Some 0 \<longrightarrow>
            map_option tx_status (findOne_id (snd (refundPayment c i rq db)) i) = Some REFUNDED) \<and>
         (Option.bind rq rf_amount = None \<longrightarrow>
            map_option tx_status (findOne_id (snd (refundPayment c i rq db)) i) = Some REFUNDED) \<and>
         (pd_refunded_amount d = Some minor \<and> tx_amount t' \<le> js_div minor 100 \<longrightarrow>
            map_option tx_status
              (findOne_id (transactions (handlePaymentRefunded rt d w)) (tx_id t')) = Some REFUNDED) \<and>
         (pd_refunded_amount d = Some minor \<and> js_div minor 100 < tx_amount t' \<longrightarrow>
            map_option tx_status
              (findOne_id (transactions (handlePaymentRefunded rt d w)) (tx_id t'))
              = Some PARTIALLY_REFUNDED) \<and>
         (pd_refunded_amount d = None \<longrightarrow>
            map_option tx_status
              (findOne_id (transactions (handlePaymentRefunded rt d w)) (tx_id t'))
              = Some PARTIALLY_REFUNDED)"
proof -
  define st where "st = (if or_number (Option.bind rq rf_amount) (tx_amount t) \<ge> tx_amount t
    then REFUNDED else PARTIALLY_REFUNDED)"
  define st' where "st' = (if refunded_in_full d t' then REFUNDED else PARTIALLY_REFUNDED)"
  have i: "tx_id t = i" using assms(1) findOne_id_Some by blast
  have run: "refundPayment c i rq db = (Inr resp, save (t\<lparr>tx_status := st\<rparr>) db)"
    using assms(1-4) unfolding refundPayment_def st_def by simp
  have after: "map_option tx_status (findOne_id (snd (refundPayment c i rq db)) i) = Some st"
    using status_after_save [of "t\<lparr>tx_status := st\<rparr>" t db] i run by simp
  have full: "st = REFUNDED" if "Option.bind rq rf_amount = Some a" and "tx_amount t \<le> a"
    using that unfolding st_def or_number_def by simp
  have part: "st = PARTIALLY_REFUNDED"
    if "Option.bind rq rf_amount = Some a" and "a \<noteq> 0" and "a < tx_amount t"
    using that unfolding st_def or_number_def by simp
  have zero: "st = REFUNDED" if "Option.bind rq rf_amount = Some 0"
    using that unfolding st_def or_number_def by simp
  have none: "st = REFUNDED" if "Option.bind rq rf_amount = None"
    using that unfolding st_def or_number_def by simp
  have after': "map_option tx_status
      (findOne_id (transactions (handlePaymentRefunded rt d w)) (tx_id t')) = Some st'"
    using status_after_save [of "t'\<lparr>tx_status := st'\<rparr>" t' "transactions w"]
      handlePaymentRefunded_found [OF assms(5)]
    unfolding st'_def by simp
  have full': "st' = REFUNDED"
    if "pd_refunded_amount d = Some minor" and "tx_amount t' \<le> js_div minor 100"
    using that unfolding st'_def refunded_in_full_def by simp
  have part': "st' = PARTIALLY_REFUNDED"
    if "pd_refunded_amount d = Some minor" and "js_div minor 100 < tx_amount t'"
    using that unfolding st'_def refunded_in_full_def by simp
  have none': "st' = PARTIALLY_REFUNDED" if "pd_refunded_amount d = None"
    using that unfolding st'_def refunded_in_full_def by simp
  have 1: "fst (refundPayment c i rq db) = Inr resp" using run by simp
  show ?thesis
    unfolding after after'
    using 1 full part zero none full' part' none' by blast
qed

theorem refund_classification_witness:
  "(findOne_id [example_transaction PAID] ''tx-1'' = Some (example_transaction PAID) \<and>
    tx_status (example_transaction PAID) = PAID \<and>
    tx_psp_provider (example_transaction PAID) = MOYASAR \<and>
    tx_amount (example_transaction PAID) = 201 / 2 \<and>
    findOne_psp (transactions (example_world PAID)) ''pay-1'' = Some (example_transaction PAID)) \<and>
   (Option.bind full_refund rf_amount = Some (201 / 2) \<and>
    map_option tx_status
      (findOne_id (snd (refundPayment accepting_connector ''tx-1'' full_refund
         [example_transaction PAID])) ''tx-1'') = Some REFUNDED \<and>
    js_div 10050 100 = 201 / 2 \<and>
    map_option tx_status
      (findOne_id (transactions (handlePaymentRefunded example_runtime
         ((example_data ''pay-1'')\<lparr>pd_refunded_amount := Some 10050\<rparr>) (example_world PAID)))
         ''tx-1'') = Some REFUNDED) \<and>
   (Option.bind partial_refund rf_amount = Some (201 / 4) \<and>
    map_option tx_status
      (findOne_id (snd (refundPayment accepting_connector ''tx-1'' partial_refund
         [example_transaction PAID])) ''tx-1'') = Some PARTIALLY_REFUNDED \<and>
    js_div 5025 100 = 201 / 4 \<and>
    map_option tx_status
      (findOne_id (transactions (handlePaymentRefunded example_runtime
         (example_data ''pay-1'') (example_world PAID))) ''tx-1'') = Some PARTIALLY_REFUNDED) \<and>
   (map_option tx_status
      (findOne_id (snd (refundPayment accepting_connector ''tx-1''
         (Some \<lparr> rf_amount = Some 0, rf_reason = None \<rparr>)
         [example_transaction PAID])) ''tx-1'') = Some REFUNDED \<and>
    map_option tx_status
      (findOne_id (transactions (handlePaymentRefunded example_runtime
         ((example_data ''pay-1'')\<lparr>pd_refunded_amount := None\<rparr>) (example_world PAID)))
         ''tx-1'') = Some PARTIALLY_REFUNDED) \<and>
   (map_option tx_status
      (findOne_id (snd (refundPayment accepting_connector ''tx-1''
         (Some \<lparr> rf_amount = None, rf_reason = Some ''requested by customer'' \<rparr>)
         [example_transaction PAID])) ''tx-1'') = Some REFUNDED \<and>
    map_option tx_status
      (findOne_id (snd (refundPayment accepting_connector ''tx-1'' None
         [example_transaction PAID])) ''tx-1'') = Some REFUNDED)"
proof -
  let ?t = "example_transaction PAID"
  let ?d = "example_data ''pay-1''"
  let ?d' = "(example_data ''pay-1'')\<lparr>pd_refunded_amount := Some 10050\<rparr>"
  let ?d'' = "(example_data ''pay-1'')\<lparr>pd_refunded_amount := None\<rparr>"
  let ?zero = "Some \<lparr> rf_amount = Some 0, rf_reason = None \<rparr>"
  let ?bare = "Some \<lparr> rf_amount = None, rf_reason = Some ''requested by customer'' \<rparr>"
  have h1: "findOne_id [?t] ''tx-1'' = Some ?t"
    by (simp add: findOne_id_def example_transaction_def)
  have h2: "tx_status ?t = PAID" by (simp add: example_transaction_def)
  have h3: "tx_psp_provider ?t = MOYASAR" by (simp add: example_transaction_def)
  have am: "tx_amount ?t = 201 / 2" by (simp add: example_transaction_def)
  have id: "tx_id ?t = ''tx-1''" by (simp add: example_transaction_def)
  have f4: "Option.bind full_refund rf_amount = Some (201 / 2)" by (simp add: full_refund_def)
  have p4: "Option.bind partial_refund rf_amount = Some (201 / 4)" by (simp add: partial_refund_def)
  have z4: "Option.bind ?zero rf_amount = Some 0" by simp
  have b4: "Option.bind ?bare rf_amount = None" by simp
  have n4: "Option.bind (None :: RefundRequest option) rf_amount = None" by simp
  have h5: "connector_refundPayment accepting_connector (tx_psp_transaction_id ?t) rq
      = Inr \<lparr> rr_id = ''refund-1'', rr_payment_id = ''pay-1'',
               rr_amount = or_number (Option.bind rq rf_amount) (201 / 2),
               rr_status = ''refunded'', rr_created_at = ''2024-02-10T12:05:00Z'' \<rparr>" for rq
    by (simp add: accepting_connector_def example_transaction_def)
  have p6: "findOne_psp (transactions (example_world PAID)) (pd_id ?d) = Some ?t"
    by (simp add: findOne_psp_def example_world_def example_data_def example_transaction_def)
  have f6: "findOne_psp (transactions (example_world PAID)) (pd_id ?d') = Some ?t"
    by (simp add: findOne_psp_def example_world_def example_data_def example_transaction_def)
  have n6: "findOne_psp (transactions (example_world PAID)) (pd_id ?d'') = Some ?t"
    by (simp add: findOne_psp_def example_world_def example_data_def example_transaction_def)
  have pd: "pd_id ?d = ''pay-1''" by (simp add: example_data_def)
  have p7: "pd_refunded_amount ?d = Some 5025" by (simp add: example_data_def)
  have f7: "pd_refunded_amount ?d' = Some 10050" by simp
  have n7: "pd_refunded_amount ?d'' = None" by simp
  have p8: "js_div 5025 100 = 201 / 4" by code_simp
  have f8: "js_div 10050 100 = 201 / 2" by code_simp
  note full = refund_classification [OF h1 h2 h3 h5 f6,
      where a = "201 / 2" and minor = 10050 and rt = example_runtime and rq = full_refund]
  note part = refund_classification [OF h1 h2 h3 h5 p6,
      where a = "201 / 4" and minor = 5025 and rt = example_runtime and rq = partial_refund]
  note zero = refund_classification [OF h1 h2 h3 h5 n6,
      where a = 0 and minor = 0 and rt = example_runtime and rq = ?zero]
  note bare = refund_classification [OF h1 h2 h3 h5 p6,
      where a = 0 and minor = 5025 and rt = example_runtime and rq = ?bare]
  note none = refund_classification [OF h1 h2 h3 h5 p6,
      where a = 0 and minor = 5025 and rt = example_runtime and rq = None]
  have c1: "map_option tx_status
      (findOne_id (snd (refundPayment accepting_connector ''tx-1'' full_refund [?t])) ''tx-1'')
      = Some REFUNDED"
    using full f4 am by simp
  have c2: "map_option tx_status
      (findOne_id (transactions (handlePaymentRefunded example_runtime ?d' (example_world PAID)))
         ''tx-1'') = Some REFUNDED"
    using full f7 f8 am id by simp
  have c3: "map_option tx_status
      (findOne_id (snd (refundPayment accepting_connector ''tx-1'' partial_refund [?t])) ''tx-1'')
      = Some PARTIALLY_REFUNDED"
    using part p4 am by simp
  have c4: "map_option tx_status
      (findOne_id (transactions (handlePaymentRefunded example_runtime ?d (example_world PAID)))
         ''tx-1'') = Some PARTIALLY_REFUNDED"
    using part p7 p8 am id by simp
  have c5: "map_option tx_status
      (findOne_id (snd (refundPayment accepting_connector ''tx-1'' ?zero [?t])) ''tx-1'')
      = Some REFUNDED"
    using zero z4 by blast
  have c6: "map_option tx_status
      (findOne_id (transactions (handlePaymentRefunded example_runtime ?d'' (example_world PAID)))
         ''tx-1'') = Some PARTIALLY_REFUNDED"
    using zero n7 id by simp
  have c7: "map_option tx_status
      (findOne_id (snd (refundPayment accepting_connector ''tx-1'' ?bare [?t])) ''tx-1'')
      = Some REFUNDED"
    using bare b4 by blast
  have c8: "map_option tx_status
      (findOne_id (snd (refundPayment accepting_connector ''tx-1'' None [?t])) ''tx-1'')
      = Some REFUNDED"
    using none n4 by blast
  show ?thesis
    using h1 h2 h3 am p6 pd f4 p4 p8 f8 c1 c2 c3 c4 c5 c6 c7 c8 by simp
qed


section \<open>The statuses VOIDED, FAILED and REFUNDED\<close>

text \<open>
  The claim C1 fails at the handler of \<^verbatim>\<open>payment_paid\<close>: a \<open>REFUNDED\<close> transaction is
  \<open>PAID\<close> after it.
\<close>

theorem terminal_counterexample:
  "map tx_status (transactions (example_world REFUNDED)) = [REFUNDED] \<and>
   map tx_status
     (transactions (handlePaymentPaid example_runtime (example_data ''pay-1'')
        (example_world REFUNDED))) = [PAID]"
  by (simp add: handlePaymentPaid_def example_world_def example_data_def example_transaction_def
      findOne_psp_def save_def transactions_forward Let_def)

text \<open>
  C1, amended. For a transaction whose status is \<open>VOIDED\<close>, \<open>FAILED\<close> or \<open>REFUNDED\<close>,
  the refund of the orchestration service makes no transition: it fails with
  \<open>InvalidState\<close> and leaves the ledger unchanged. The other writers do not look at the
  current status: after \<open>getPayment\<close> the status in the ledger is the one the connector
  reported, after the handler of \<^verbatim>\<open>payment_paid\<close> it is \<open>PAID\<close>, after that of
  \<^verbatim>\<open>payment_failed\<close> it is \<open>FAILED\<close>, and after that of \<^verbatim>\<open>payment_refunded\<close> it is
  \<open>REFUNDED\<close> or \<open>PARTIALLY_REFUNDED\<close> by the refunded amount.
\<close>

theorem terminal_status_writers:
  assumes "tx_status t = VOIDED \<or> tx_status t = FAILED \<or> tx_status t = REFUNDED"
  shows "(findOne_id db i = Some t \<longrightarrow>
            refundPayment c i rq db = (Inl InvalidState, db)) \<and>
         (findOne_id db i = Some t \<and> tx_psp_provider t = MOYASAR \<and>
            connector_getPayment c (tx_psp_transaction_id t) = Inr resp \<longrightarrow>
            map_option tx_status (findOne_id (snd (getPayment c i db)) i) = Some (rs_status resp)) \<and>
         (findOne_psp (transactions w) (pd_id d) = Some t \<longrightarrow>
            map_option tx_status
              (findOne_id (transactions (handlePaymentPaid rt d w)) (tx_id t)) = Some PAID \<and>
            map_option tx_status
              (findOne_id (transactions (handlePaymentFailed rt d w)) (tx_id t)) = Some FAILED \<and>
            map_option tx_status
              (findOne_id (transactions (handlePaymentRefunded rt d w)) (tx_id t))
              = Some (if refunded_in_full d t then REFUNDED else PARTIALLY_REFUNDED))"
proof (intro conjI impI)
  assume "findOne_id db i = Some t"
  moreover from assms have "tx_status t \<noteq> PAID" by auto
  ultimately show "refundPayment c i rq db = (Inl InvalidState, db)"
    unfolding refundPayment_def InvalidState_def rethrow_def by simp
next
  assume a: "findOne_id db i = Some t \<and> tx_psp_provider t = MOYASAR \<and>
    connector_getPayment c (tx_psp_transaction_id t) = Inr resp"
  then have i: "tx_id t = i" using findOne_id_Some by blast
  show "map_option tx_status (findOne_id (snd (getPayment c i db)) i) = Some (rs_status resp)"
  proof (cases "rs_status resp = tx_status t")
    case True
    with a show ?thesis unfolding getPayment_def by simp
  next
    case False
    with a have "snd (getPayment c i db) = save (t\<lparr>tx_status := rs_status resp\<rparr>) db"
      unfolding getPayment_def by simp
    then show ?thesis using status_after_save [of "t\<lparr>tx_status := rs_status resp\<rparr>" t db] i by simp
  qed
next
  assume f: "findOne_psp (transactions w) (pd_id d) = Some t"
  show "map_option tx_status
          (findOne_id (transactions (handlePaymentPaid rt d w)) (tx_id t)) = Some PAID"
    using status_after_save [of "t\<lparr>tx_status := PAID\<rparr>" t] handlePaymentPaid_found [OF f]
    by simp
  show "map_option tx_status
          (findOne_id (transactions (handlePaymentFailed rt d w)) (tx_id t)) = Some FAILED"
    using status_after_save [of "t\<lparr>tx_status := FAILED,
             tx_error_message := Some (or_string (pd_message d) ''Payment failed'')\<rparr>" t]
      handlePaymentFailed_found [OF f]
    by simp
  show "map_option tx_status
          (findOne_id (transactions (handlePaymentRefunded rt d w)) (tx_id t))
          = Some (if refunded_in_full d t then REFUNDED else PARTIALLY_REFUNDED)"
    using status_after_save [of "t\<lparr>tx_status :=
        (if refunded_in_full d t then REFUNDED else PARTIALLY_REFUNDED)\<rparr>" t]
      handlePaymentRefunded_found [OF f]
    by simp
qed

theorem terminal_status_writers_witness:
  "(tx_status (example_transaction REFUNDED) = VOIDED \<or>
    tx_status (example_transaction REFUNDED) = FAILED \<or>
    tx_status (example_transaction REFUNDED) = REFUNDED) \<and>
   findOne_id [example_transaction REFUNDED] ''tx-1'' = Some (example_transaction REFUNDED) \<and>
   tx_psp_provider (example_transaction REFUNDED) = MOYASAR \<and>
   connector_getPayment accepting_connector (tx_psp_transaction_id (example_transaction REFUNDED))
     = Inr (example_response ''pay-1'' PAID) \<and>
   findOne_psp (transactions (example_world REFUNDED)) (pd_id (example_data ''pay-1''))
     = Some (example_transaction REFUNDED) \<and>
   refundPayment accepting_connector ''tx-1'' partial_refund [example_transaction REFUNDED]
     = (Inl InvalidState, [example_transaction REFUNDED]) \<and>
   map_option tx_status
     (findOne_id (snd (getPayment accepting_connector ''tx-1'' [example_transaction REFUNDED]))
        ''tx-1'') = Some PAID \<and>
   map_option tx_status
     (findOne_id (transactions (handlePaymentPaid example_runtime (example_data ''pay-1'')
        (example_world REFUNDED))) ''tx-1'') = Some PAID \<and>
   map_option tx_status
     (findOne_id (transactions (handlePaymentFailed example_runtime (example_data ''pay-1'')
        (example_world REFUNDED))) ''tx-1'') = Some FAILED \<and>
   map_option tx_status
     (findOne_id (transactions (handlePaymentRefunded example_runtime (example_data ''pay-1'')
        (example_world REFUNDED))) ''tx-1'') = Some PARTIALLY_REFUNDED"
proof -
  have h0: "tx_status (example_transaction REFUNDED) = VOIDED \<or>
    tx_status (example_transaction REFUNDED) = FAILED \<or>
    tx_status (example_transaction REFUNDED) = REFUNDED"
    by (simp add: example_transaction_def)
  have h1: "findOne_id [example_transaction REFUNDED] ''tx-1'' = Some (example_transaction REFUNDED)"
    by (simp add: findOne_id_def example_transaction_def)
  have h2: "tx_psp_provider (example_transaction REFUNDED) = MOYASAR"
    by (simp add: example_transaction_def)
  have h3: "connector_getPayment accepting_connector
      (tx_psp_transaction_id (example_transaction REFUNDED)) = Inr (example_response ''pay-1'' PAID)"
    by (simp add: accepting_connector_def example_transaction_def)
  have h4: "findOne_psp (transactions (example_world REFUNDED)) (pd_id (example_data ''pay-1''))
      = Some (example_transaction REFUNDED)"
    by (simp add: findOne_psp_def example_world_def example_data_def example_transaction_def)
  have h5: "tx_id (example_transaction REFUNDED) = ''tx-1''"
    by (simp add: example_transaction_def)
  have h6: "rs_status (example_response ''pay-1'' PAID) = PAID"
    by (simp add: example_response_def)
  have q: "js_div 5025 100 = 201 / 4" by code_simp
  have h7: "\<not> refunded_in_full (example_data ''pay-1'') (example_transaction REFUNDED)"
    using q by (simp add: refunded_in_full_def example_data_def example_transaction_def)
  show ?thesis
    using h0 h1 h2 h3 h4 h5 h6 h7
      terminal_status_writers [OF h0, of "[example_transaction REFUNDED]" "''tx-1''"
        accepting_connector partial_refund "example_response ''pay-1'' PAID"
        "example_world REFUNDED" "example_data ''pay-1''" example_runtime]
    by simp
qed


section \<open>The webhook controller\<close>

text \<open>
  With a secret configured, a signature that is present and does not match is answered
  with 401 and nothing is written; without a secret, or without a signature, no request is
  refused.
\<close>

lemma invalid_signature_rejected:
  assumes "MOYASAR_WEBHOOK_SECRET rt = Some secret"
    and "secret \<noteq> []"
    and "wh_signature req = Some signature"
    and "signature \<noteq> []"
    and "hmac_sha256_hex rt secret (stringify_event rt (wh_body req)) \<noteq> signature"
  shows "handleMoyasarWebhook rt req w
           = (\<lparr> wr_status = 401, wr_body = ErrorBody ''Invalid signature'' \<rparr>, w)"
  using assms
  unfolding handleMoyasarWebhook_def signature_refused_def verifyWebhookSignature_def by simp

lemma no_secret_never_refused:
  assumes "MOYASAR_WEBHOOK_SECRET rt = None \<or> MOYASAR_WEBHOOK_SECRET rt = Some []"
  shows "\<not> signature_refused rt req"
  using assms unfolding signature_refused_def by (auto split: option.splits)

lemma missing_signature_never_refused:
  assumes "wh_signature req = None \<or> wh_signature req = Some []"
  shows "\<not> signature_refused rt req"
  using assms unfolding signature_refused_def by (auto split: option.splits)

text \<open>
  C2 at a request without the signature header, a secret being configured: the event is
  processed, the transaction goes from \<open>PENDING\<close> to \<open>PAID\<close> and the answer is 200,
  where the claim has a 401 and no processing.
\<close>

theorem missing_signature_processed:
  "MOYASAR_WEBHOOK_SECRET example_runtime = Some ''whsec-1'' \<and>
   handleMoyasarWebhook example_runtime
       \<lparr> wh_signature = None, wh_body = example_event ''payment_paid'' ''pay-1'' \<rparr>
       (example_world PENDING)
     = (\<lparr> wr_status = 200, wr_body = Received \<rparr>, example_world PAID)"
  by (simp add: handleMoyasarWebhook_def signature_refused_def example_runtime_def dispatch_def
      example_event_def handlePaymentPaid_def example_data_def example_world_def findOne_psp_def
      example_transaction_def save_def forwardWebhookToMerchant_def example_merchants_def
      example_merchant_def Let_def)

lemma dispatch_unknown_transaction:
  assumes "ev_data event = Some d"
    and "findOne_psp (transactions w) (pd_id d) = None"
  shows "dispatch rt event w = Some w"
  using assms
  unfolding dispatch_def handlePaymentPaid_def handlePaymentFailed_def handlePaymentRefunded_def
  by simp

text \<open>
  C9. An event whose provider id matches no row of the ledger changes nothing (no row is
  created, none is changed, nothing is forwarded) and raises no error; the answer is the
  acknowledgement 200 whenever the request is not refused for its signature.
\<close>

theorem webhook_unknown_transaction:
  assumes "ev_data (wh_body req) = Some d"
    and "findOne_psp (transactions w) (pd_id d) = None"
  shows "snd (handleMoyasarWebhook rt req w) = w \<and>
         wr_status (fst (handleMoyasarWebhook rt req w)) \<noteq> 500 \<and>
         (\<not> signature_refused rt req \<longrightarrow>
            handleMoyasarWebhook rt req w = (\<lparr> wr_status = 200, wr_body = Received \<rparr>, w))"
  using dispatch_unknown_transaction [OF assms] unfolding handleMoyasarWebhook_def by simp

theorem webhook_unknown_transaction_witness:
  "ev_data (example_event ''payment_paid'' ''pay-404'') = Some (example_data ''pay-404'') \<and>
   findOne_psp (transactions (example_world PAID)) (pd_id (example_data ''pay-404'')) = None \<and>
   \<not> signature_refused example_runtime
       \<lparr> wh_signature = Some ''mac:whsec-1:payment_paid'',
         wh_body = example_event ''payment_paid'' ''pay-404'' \<rparr> \<and>
   handleMoyasarWebhook example_runtime
       \<lparr> wh_signature = Some ''mac:whsec-1:payment_paid'',
         wh_body = example_event ''payment_paid'' ''pay-404'' \<rparr> (example_world PAID)
     = (\<lparr> wr_status = 200, wr_body = Received \<rparr>, example_world PAID)"
proof -
  let ?req = "\<lparr> wh_signature = Some ''mac:whsec-1:payment_paid'',
         wh_body = example_event ''payment_paid'' ''pay-404'' \<rparr>"
  have h1: "ev_data (wh_body ?req) = Some (example_data ''pay-404'')"
    by (simp add: example_event_def)
  have h2: "findOne_psp (transactions (example_world PAID)) (pd_id (example_data ''pay-404'')) = None"
    by (simp add: findOne_psp_def example_world_def example_data_def example_transaction_def)
  have h3: "\<not> signature_refused example_runtime ?req"
    by (simp add: signature_refused_def example_runtime_def verifyWebhookSignature_def
        example_event_def)
  show ?thesis
    using h1 h2 h3 webhook_unknown_transaction [OF h1 h2, of example_runtime]
    by simp
qed


section \<open>The merchant API\<close>

text \<open>
  C10. The controller methods for get and refund give the same response and the same
  ledger whatever merchant is attached to the request, and so do the two routes for two
  requests that authenticate as different merchants and name the same transaction. For a
  transaction owned by another merchant than the caller, get answers 200 with the payment
  and refund answers 200 and changes the transaction's status.
\<close>

theorem no_tenant_check:
  "PaymentController_getPayment c m1 req db = PaymentController_getPayment c m2 req db \<and>
   PaymentController_refundPayment c m1 req db = PaymentController_refundPayment c m2 req db \<and>
   (authenticateApiKey ms req1 = Inr m1 \<and> authenticateApiKey ms req2 = Inr m2 \<and>
    hr_id req1 = hr_id req2 \<and> hr_refund req1 = hr_refund req2 \<longrightarrow>
      route_getPayment c ms req1 db = route_getPayment c ms req2 db \<and>
      route_refundPayment c ms req1 db = route_refundPayment c ms req2 db) \<and>
   (findOne_id db (hr_id req) = Some t \<and> tx_merchant_id t \<noteq> m_id m \<and>
    tx_psp_provider t = MOYASAR \<longrightarrow>
      (connector_getPayment c (tx_psp_transaction_id t) = Inr p \<longrightarrow>
         fst (PaymentController_getPayment c m req db)
           = \<lparr> ar_status = 200, ar_body = Success (p\<lparr>rs_id := tx_id t\<rparr>) \<rparr>) \<and>
      (tx_status t = PAID \<and>
       connector_refundPayment c (tx_psp_transaction_id t) (hr_refund req) = Inr r \<longrightarrow>
         fst (PaymentController_refundPayment c m req db)
           = \<lparr> ar_status = 200, ar_body = Success r \<rparr> \<and>
         map_option tx_status
           (findOne_id (snd (PaymentController_refundPayment c m req db)) (hr_id req))
           \<in> {Some REFUNDED, Some PARTIALLY_REFUNDED}))"
proof (intro conjI impI)
  show "PaymentController_getPayment c m1 req db = PaymentController_getPayment c m2 req db"
    unfolding PaymentController_getPayment_def ..
  show "PaymentController_refundPayment c m1 req db = PaymentController_refundPayment c m2 req db"
    unfolding PaymentController_refundPayment_def ..
next
  assume a: "authenticateApiKey ms req1 = Inr m1 \<and> authenticateApiKey ms req2 = Inr m2 \<and>
    hr_id req1 = hr_id req2 \<and> hr_refund req1 = hr_refund req2"
  then show "route_getPayment c ms req1 db = route_getPayment c ms req2 db"
    unfolding route_getPayment_def PaymentController_getPayment_def by simp
  from a show "route_refundPayment c ms req1 db = route_refundPayment c ms req2 db"
    unfolding route_refundPayment_def PaymentController_refundPayment_def by simp
next
  assume a: "findOne_id db (hr_id req) = Some t \<and> tx_merchant_id t \<noteq> m_id m \<and>
    tx_psp_provider t = MOYASAR"
    and b: "connector_getPayment c (tx_psp_transaction_id t) = Inr p"
  then show "fst (PaymentController_getPayment c m req db)
           = \<lparr> ar_status = 200, ar_body = Success (p\<lparr>rs_id := tx_id t\<rparr>) \<rparr>"
    unfolding PaymentController_getPayment_def getPayment_def by simp
next
  assume a: "findOne_id db (hr_id req) = Some t \<and> tx_merchant_id t \<noteq> m_id m \<and>
    tx_psp_provider t = MOYASAR"
    and b: "tx_status t = PAID \<and>
       connector_refundPayment c (tx_psp_transaction_id t) (hr_refund req) = Inr r"
  define st where "st = (if or_number (Option.bind (hr_refund req) rf_amount) (tx_amount t)
      \<ge> tx_amount t then REFUNDED else PARTIALLY_REFUNDED)"
  have st: "st = REFUNDED \<or> st = PARTIALLY_REFUNDED" unfolding st_def by simp
  have i: "tx_id t = hr_id req" using a findOne_id_Some by blast
  have run: "refundPayment c (hr_id req) (hr_refund req) db
      = (Inr r, save (t\<lparr>tx_status := st\<rparr>) db)"
    using a b unfolding refundPayment_def st_def by simp
  then have ctl: "PaymentController_refundPayment c m req db
      = (\<lparr> ar_status = 200, ar_body = Success r \<rparr>, save (t\<lparr>tx_status := st\<rparr>) db)"
    unfolding PaymentController_refundPayment_def by simp
  then show "fst (PaymentController_refundPayment c m req db)
           = \<lparr> ar_status = 200, ar_body = Success r \<rparr>" by simp
  have "map_option tx_status (findOne_id (save (t\<lparr>tx_status := st\<rparr>) db) (hr_id req)) = Some st"
    using status_after_save [of "t\<lparr>tx_status := st\<rparr>" t db] i by simp
  with ctl st show "map_option tx_status
           (findOne_id (snd (PaymentController_refundPayment c m req db)) (hr_id req))
           \<in> {Some REFUNDED, Some PARTIALLY_REFUNDED}" by auto
qed

theorem no_tenant_check_witness:
  "authenticateApiKey example_merchants (example_api_request ''key-1'')
     = Inr (example_merchant ''merchant-1'' ''key-1'') \<and>
   authenticateApiKey example_merchants (example_api_request ''key-2'')
     = Inr (example_merchant ''merchant-2'' ''key-2'') \<and>
   hr_id (example_api_request ''key-1'') = hr_id (example_api_request ''key-2'') \<and>
   hr_refund (example_api_request ''key-1'') = hr_refund (example_api_request ''key-2'') \<and>
   findOne_id [example_transaction PAID] (hr_id (example_api_request ''key-2''))
     = Some (example_transaction PAID) \<and>
   tx_merchant_id (example_transaction PAID) \<noteq> m_id (example_merchant ''merchant-2'' ''key-2'') \<and>
   tx_psp_provider (example_transaction PAID) = MOYASAR \<and>
   tx_status (example_transaction PAID) = PAID \<and>
   route_getPayment accepting_connector example_merchants (example_api_request ''key-1'')
       [example_transaction PAID]
     = route_getPayment accepting_connector example_merchants (example_api_request ''key-2'')
       [example_transaction PAID] \<and>
   route_refundPayment accepting_connector example_merchants (example_api_request ''key-1'')
       [example_transaction PAID]
     = route_refundPayment accepting_connector example_merchants (example_api_request ''key-2'')
       [example_transaction PAID] \<and>
   fst (PaymentController_getPayment accepting_connector (example_merchant ''merchant-2'' ''key-2'')
          (example_api_request ''key-2'') [example_transaction PAID])
     = \<lparr> ar_status = 200, ar_body = Success (example_response ''tx-1'' PAID) \<rparr> \<and>
   fst (PaymentController_refundPayment accepting_connector
          (example_merchant ''merchant-2'' ''key-2'')
          (example_api_request ''key-2'') [example_transaction PAID])
     = \<lparr> ar_status = 200, ar_body = Success \<lparr> rr_id = ''refund-1'', rr_payment_id = ''pay-1'',
           rr_amount = 201 / 4, rr_status = ''refunded'',
           rr_created_at = ''2024-02-10T12:05:00Z'' \<rparr> \<rparr>"
proof -
  let ?t = "example_transaction PAID"
  let ?m1 = "example_merchant ''merchant-1'' ''key-1''"
  let ?m2 = "example_merchant ''merchant-2'' ''key-2''"
  let ?r1 = "example_api_request ''key-1''"
  let ?r2 = "example_api_request ''key-2''"
  let ?p = "example_response ''pay-1'' PAID"
  let ?r = "\<lparr> rr_id = ''refund-1'', rr_payment_id = ''pay-1'',
           rr_amount = 201 / 4, rr_status = ''refunded'',
           rr_created_at = ''2024-02-10T12:05:00Z'' \<rparr>"
  have a1: "authenticateApiKey example_merchants ?r1 = Inr ?m1"
    by (simp add: authenticateApiKey_def example_merchants_def example_api_request_def
        example_merchant_def)
  have a2: "authenticateApiKey example_merchants ?r2 = Inr ?m2"
    by (simp add: authenticateApiKey_def example_merchants_def example_api_request_def
        example_merchant_def)
  have e1: "hr_id ?r1 = hr_id ?r2" by (simp add: example_api_request_def)
  have e2: "hr_refund ?r1 = hr_refund ?r2" by (simp add: example_api_request_def)
  have f: "findOne_id [?t] (hr_id ?r2) = Some ?t"
    by (simp add: findOne_id_def example_api_request_def example_transaction_def)
  have o: "tx_merchant_id ?t \<noteq> m_id ?m2"
    by (simp add: example_transaction_def example_merchant_def)
  have p: "tx_psp_provider ?t = MOYASAR" by (simp add: example_transaction_def)
  have s: "tx_status ?t = PAID" by (simp add: example_transaction_def)
  have g: "connector_getPayment accepting_connector (tx_psp_transaction_id ?t) = Inr ?p"
    by (simp add: accepting_connector_def example_transaction_def)
  have q: "connector_refundPayment accepting_connector (tx_psp_transaction_id ?t) (hr_refund ?r2)
      = Inr ?r"
    by (simp add: accepting_connector_def example_transaction_def example_api_request_def
        partial_refund_def or_number_def)
  have id: "?p\<lparr>rs_id := tx_id ?t\<rparr> = example_response ''tx-1'' PAID"
    by (simp add: example_response_def example_transaction_def)
  show ?thesis
    using a1 a2 e1 e2 f o p s g q id
      no_tenant_check [where c = accepting_connector and ?m1.0 = ?m1 and ?m2.0 = ?m2
        and req = ?r2 and db = "[?t]" and ms = example_merchants and ?req1.0 = ?r1
        and ?req2.0 = ?r2 and t = ?t and m = ?m2 and p = ?p and r = ?r]
    by simp
qed


section \<open>The Moyasar connector\<close>

text \<open>
  The nine provider statuses map by the table; a string outside the table that is not a
  member of \<^verbatim>\<open>Object.prototype\<close> maps to \<open>FAILED\<close>; only \<^verbatim>\<open>paid\<close> maps to \<open>PAID\<close>.
\<close>

lemma mapStatus_table:
  "mapStatus ''initiated'' = Canonical PENDING"
  "mapStatus ''pending'' = Canonical PENDING"
  "mapStatus ''processing'' = Canonical PROCESSING"
  "mapStatus ''authorized'' = Canonical AUTHORIZED"
  "mapStatus ''paid'' = Canonical PAID"
  "mapStatus ''failed'' = Canonical FAILED"
  "mapStatus ''refunded'' = Canonical REFUNDED"
  "mapStatus ''partially_refunded'' = Canonical PARTIALLY_REFUNDED"
  "mapStatus ''voided'' = Canonical VOIDED"
  by (simp_all add: mapStatus_def statusMap_def)

lemma mapStatus_unmapped:
  assumes "map_of statusMap s = None" and "s \<notin> set Object_prototype_keys"
  shows "mapStatus s = Canonical FAILED"
  using assms unfolding mapStatus_def by simp

lemma mapStatus_PAID_iff: "mapStatus s = Canonical PAID \<longleftrightarrow> s = ''paid''"
  unfolding mapStatus_def statusMap_def by (auto split: option.splits if_splits)

text \<open>
  C5 at the provider status \<^verbatim>\<open>constructor\<close>, which is not in the table: the value
  returned is the inherited member, not \<open>FAILED\<close> and not a canonical status.
\<close>

theorem mapStatus_inherited_key:
  "map_of statusMap ''constructor'' = None \<and>
   mapStatus ''constructor'' = Inherited ''constructor'' \<and>
   mapStatus ''constructor'' \<noteq> Canonical FAILED"
  by (simp add: mapStatus_def statusMap_def Object_prototype_keys_def)


text \<open>
  The same for a request amount that is no two-decimal value, as long as its halalas are
  below \<open>100 * 2^45\<close> in magnitude.
\<close>

lemma amount_round_trip_any:
  assumes "\<bar>mp_amount (buildPaymentPayload request)\<bar> < 100 * 2 ^ 45"
    and "my_amount moyasarPayment = mp_amount (buildPaymentPayload request)"
    and "rq_amount request' = rs_amount (mapMoyasarResponse moyasarPayment)"
  shows "mp_amount (buildPaymentPayload request') = mp_amount (buildPaymentPayload request)"
proof -
  define n where "n = \<lfloor>js_mul (rq_amount request) 100 + 1 / 2\<rfloor>"
  have m: "mp_amount (buildPaymentPayload request) = of_int n"
    unfolding buildPaymentPayload_def Math_round_def n_def by simp
  with assms(1) have "\<bar>(of_int n :: rat)\<bar> < 100 * 2 ^ 45" by simp
  then have "(of_int \<bar>n\<bar> :: rat) < of_int (100 * 2 ^ 45)" by simp
  then have n: "\<bar>n\<bar> < 100 * 2 ^ 45" by (simp only: of_int_less_iff)
  have "rq_amount request' = js_div (of_int n) 100"
    using assms(2,3) m unfolding mapMoyasarResponse_def by simp
  then have "mp_amount (buildPaymentPayload request') = of_int n"
    using halalas_exact_small [OF n] unfolding buildPaymentPayload_def by simp
  with m show ?thesis by simp
qed

text \<open>
  C8. Amounts go to the provider in halalas and come back in riyals without drift. Let the
  request's amount be the number nearest to the decimal \<open>k / 100\<close>, with \<open>k\<close> below
  \<open>100 * 2^46\<close> (riyals below \<open>2^46\<close>, the range in which binary64 numbers are less than
  0.01 apart and so hold two decimals) and above \<open>- 100 * 2^45\<close>. Then the halalas sent,
  mapped back to riyals by the response and sent again, are the same halalas. When \<open>k\<close> is
  below \<open>100 * 2^45\<close> in magnitude the halalas are exactly \<open>k\<close> and the mapped response has
  the request's amount again. The ledger is written through the column
  \<^verbatim>\<open>decimal(10, 2)\<close>: for \<open>0 \<le> k < 10^10\<close> (riyals below \<open>10^8\<close>) the row that
  \<open>createPayment\<close> inserts holds the request's amount, in riyals, whatever the connector
  answered; for \<open>10^10 \<le> k < 10^15\<close> the insert is refused after the provider has accepted,
  \<open>createPayment\<close> fails and the ledger has no new row. For every amount the row holds
  what the column makes of the request's amount, or there is no row.
\<close>

theorem amount_round_trip:
  fixes k :: int
  shows
   "(- (100 * 2 ^ 45) < k \<and> k < 100 * 2 ^ 46 \<and> rq_amount request = fl64 (of_int k / 100) \<and>
     my_amount moyasarPayment = mp_amount (buildPaymentPayload request) \<and>
     rq_amount request' = rs_amount (mapMoyasarResponse moyasarPayment) \<longrightarrow>
       mp_amount (buildPaymentPayload request') = mp_amount (buildPaymentPayload request)) \<and>
    (\<bar>k\<bar> < 100 * 2 ^ 45 \<and> rq_amount request = fl64 (of_int k / 100) \<longrightarrow>
       mp_amount (buildPaymentPayload request) = of_int k \<and>
       (my_amount moyasarPayment = of_int k \<longrightarrow>
          rs_amount (mapMoyasarResponse moyasarPayment) = rq_amount request)) \<and>
    (0 \<le> k \<and> k < 10 ^ 10 \<and> rq_amount request = fl64 (of_int k / 100) \<and>
     connector_createPayment c request = Inr resp \<longrightarrow>
       fst (createPayment c uuid merchantId request db) = Inr (resp\<lparr>rs_id := uuid\<rparr>) \<and>
       map tx_amount (snd (createPayment c uuid merchantId request db))
         = map tx_amount db @ [rq_amount request]) \<and>
    (10 ^ 10 \<le> k \<and> k < 10 ^ 15 \<and> rq_amount request = fl64 (of_int k / 100) \<and>
     connector_createPayment c request = Inr resp \<longrightarrow>
       createPayment c uuid merchantId request db
         = (Inl (Error ''Failed to create payment: numeric field overflow''), db)) \<and>
    (connector_createPayment c request = Inr resp \<longrightarrow>
       (case decimal_10_2 (rq_amount request) of
          None \<Rightarrow> createPayment c uuid merchantId request db
            = (Inl (Error ''Failed to create payment: numeric field overflow''), db)
        | Some amount \<Rightarrow>
            fst (createPayment c uuid merchantId request db) = Inr (resp\<lparr>rs_id := uuid\<rparr>) \<and>
            map tx_amount (snd (createPayment c uuid merchantId request db))
              = map tx_amount db @ [amount]))"
proof -
  have any: "connector_createPayment c request = Inr resp \<Longrightarrow>
      (case decimal_10_2 (rq_amount request) of
          None \<Rightarrow> createPayment c uuid merchantId request db
            = (Inl (Error ''Failed to create payment: numeric field overflow''), db)
        | Some amount \<Rightarrow>
            fst (createPayment c uuid merchantId request db) = Inr (resp\<lparr>rs_id := uuid\<rparr>) \<and>
            map tx_amount (snd (createPayment c uuid merchantId request db))
              = map tx_amount db @ [amount])"
    unfolding createPayment_def selectPSP_def rethrow_def
    by (simp add: Let_def split: option.splits)
  have 1: "- (100 * 2 ^ 45) < k \<and> k < 100 * 2 ^ 46 \<and> rq_amount request = fl64 (of_int k / 100) \<and>
     my_amount moyasarPayment = mp_amount (buildPaymentPayload request) \<and>
     rq_amount request' = rs_amount (mapMoyasarResponse moyasarPayment) \<longrightarrow>
       mp_amount (buildPaymentPayload request') = mp_amount (buildPaymentPayload request)"
  proof
    assume a: "- (100 * 2 ^ 45) < k \<and> k < 100 * 2 ^ 46 \<and>
       rq_amount request = fl64 (of_int k / 100) \<and>
       my_amount moyasarPayment = mp_amount (buildPaymentPayload request) \<and>
       rq_amount request' = rs_amount (mapMoyasarResponse moyasarPayment)"
    then have "- (100 * 2 ^ 45) < k" and "k < 100 * 2 ^ 46" by simp_all
    then have "Math_round (js_mul (js_div (Math_round (js_mul (fl64 (of_int k / 100)) 100)) 100) 100)
        = Math_round (js_mul (fl64 (of_int k / 100)) 100)"
      by (rule halalas_no_drift)
    with a show "mp_amount (buildPaymentPayload request') = mp_amount (buildPaymentPayload request)"
      unfolding buildPaymentPayload_def mapMoyasarResponse_def by simp
  qed
  have 2: "\<bar>k\<bar> < 100 * 2 ^ 45 \<and> rq_amount request = fl64 (of_int k / 100) \<longrightarrow>
       mp_amount (buildPaymentPayload request) = of_int k \<and>
       (my_amount moyasarPayment = of_int k \<longrightarrow>
          rs_amount (mapMoyasarResponse moyasarPayment) = rq_amount request)"
  proof (intro impI conjI)
    assume a: "\<bar>k\<bar> < 100 * 2 ^ 45 \<and> rq_amount request = fl64 (of_int k / 100)"
    then show "mp_amount (buildPaymentPayload request) = of_int k"
      using halalas_exact_small [of k] unfolding buildPaymentPayload_def js_div_def by simp
    assume "my_amount moyasarPayment = of_int k"
    with a show "rs_amount (mapMoyasarResponse moyasarPayment) = rq_amount request"
      unfolding mapMoyasarResponse_def js_div_def by simp
  qed
  have 3: "0 \<le> k \<and> k < 10 ^ 10 \<and> rq_amount request = fl64 (of_int k / 100) \<and>
     connector_createPayment c request = Inr resp \<longrightarrow>
       fst (createPayment c uuid merchantId request db) = Inr (resp\<lparr>rs_id := uuid\<rparr>) \<and>
       map tx_amount (snd (createPayment c uuid merchantId request db))
         = map tx_amount db @ [rq_amount request]"
  proof
    assume a: "0 \<le> k \<and> k < 10 ^ 10 \<and> rq_amount request = fl64 (of_int k / 100) \<and>
       connector_createPayment c request = Inr resp"
    then have "decimal_10_2 (rq_amount request) = Some (rq_amount request)"
      using decimal_10_2_cents [of k] by simp
    with any a show "fst (createPayment c uuid merchantId request db) = Inr (resp\<lparr>rs_id := uuid\<rparr>) \<and>
       map tx_amount (snd (createPayment c uuid merchantId request db))
         = map tx_amount db @ [rq_amount request]"
      by simp
  qed
  have 4: "10 ^ 10 \<le> k \<and> k < 10 ^ 15 \<and> rq_amount request = fl64 (of_int k / 100) \<and>
     connector_createPayment c request = Inr resp \<longrightarrow>
       createPayment c uuid merchantId request db
         = (Inl (Error ''Failed to create payment: numeric field overflow''), db)"
  proof
    assume a: "10 ^ 10 \<le> k \<and> k < 10 ^ 15 \<and> rq_amount request = fl64 (of_int k / 100) \<and>
       connector_createPayment c request = Inr resp"
    then have "decimal_10_2 (rq_amount request) = None"
      using decimal_10_2_overflow [of k] by simp
    with any a show "createPayment c uuid merchantId request db
         = (Inl (Error ''Failed to create payment: numeric field overflow''), db)"
      by simp
  qed
  from 1 2 3 4 any show ?thesis by blast
qed

theorem amount_round_trip_witness:
  "rq_amount example_request = 201 / 2 \<and>
   rq_amount example_request = fl64 (10050 / 100) \<and>
   - (100 * 2 ^ 45) < (10050 :: int) \<and> (10050 :: int) < 100 * 2 ^ 46 \<and>
   \<bar>10050 :: int\<bar> < 100 * 2 ^ 45 \<and> 0 \<le> (10050 :: int) \<and> (10050 :: int) < 10 ^ 10 \<and>
   mp_amount (buildPaymentPayload example_request) = 10050 \<and>
   my_amount example_moyasar_payment = mp_amount (buildPaymentPayload example_request) \<and>
   rs_amount (mapMoyasarResponse example_moyasar_payment) = rq_amount example_request \<and>
   rq_amount (example_request\<lparr>rq_description := Some ''Order 7''\<rparr>)
     = rs_amount (mapMoyasarResponse example_moyasar_payment) \<and>
   mp_amount (buildPaymentPayload (example_request\<lparr>rq_description := Some ''Order 7''\<rparr>))
     = mp_amount (buildPaymentPayload example_request) \<and>
   rs_status (mapMoyasarResponse example_moyasar_payment) = Canonical PAID \<and>
   connector_createPayment accepting_connector example_request
     = Inr (example_response ''pay-1'' PAID) \<and>
   createPayment accepting_connector ''tx-1'' ''merchant-1'' example_request []
     = (Inr (example_response ''tx-1'' PAID), [example_transaction PAID]) \<and>
   map tx_amount (snd (createPayment accepting_connector ''tx-1'' ''merchant-1'' example_request []))
     = [201 / 2] \<and>
   (10 ^ 10 \<le> (12345678912 :: int) \<and> (12345678912 :: int) < 10 ^ 15 \<and>
    connector_createPayment accepting_connector
       (example_request\<lparr>rq_amount := fl64 (12345678912 / 100)\<rparr>)
      = Inr (example_response ''pay-1'' PAID) \<and>
    createPayment accepting_connector ''tx-2'' ''merchant-1''
       (example_request\<lparr>rq_amount := fl64 (12345678912 / 100)\<rparr>) [example_transaction PAID]
      = (Inl (Error ''Failed to create payment: numeric field overflow''),
         [example_transaction PAID])) \<and>
   (decimal_10_2 (fl64 (1005 / 1000)) = Some (fl64 (101 / 100)) \<and>
    map tx_amount (snd (createPayment accepting_connector ''tx-2'' ''merchant-1''
       (example_request\<lparr>rq_amount := fl64 (1005 / 1000)\<rparr>) [example_transaction PAID]))
      = [201 / 2, fl64 (101 / 100)])"
proof -
  let ?big = "example_request\<lparr>rq_amount := fl64 (12345678912 / 100)\<rparr>"
  let ?fine = "example_request\<lparr>rq_amount := fl64 (1005 / 1000)\<rparr>"
  have a: "rq_amount example_request = 201 / 2" by (simp add: example_request_def)
  have f: "fl64 (10050 / 100) = 201 / 2" by code_simp
  have k1: "- (100 * 2 ^ 45) < (10050 :: int)" by simp
  have k2: "(10050 :: int) < 100 * 2 ^ 46" by simp
  have k3: "\<bar>10050 :: int\<bar> < 100 * 2 ^ 45" by simp
  have k4: "0 \<le> (10050 :: int)" "(10050 :: int) < 10 ^ 10" by simp_all
  have k5: "10 ^ 10 \<le> (12345678912 :: int)" "(12345678912 :: int) < 10 ^ 15" by simp_all
  have d: "rq_amount example_request = fl64 (of_int 10050 / 100)" using a f by simp
  have d': "rq_amount ?big = fl64 (of_int 12345678912 / 100)" by simp
  have w: "my_amount example_moyasar_payment = of_int 10050"
    by (simp add: example_moyasar_payment_def)
  have c: "connector_createPayment accepting_connector rq
      = Inr (example_response ''pay-1'' PAID)" for rq
    by (simp add: accepting_connector_def)
  have col: "decimal_10_2 (fl64 (1005 / 1000)) = Some (fl64 (101 / 100))" by code_simp
  note t = amount_round_trip [where request = example_request and k = 10050
      and moyasarPayment = example_moyasar_payment
      and request' = "example_request\<lparr>rq_description := Some ''Order 7''\<rparr>"
      and c = accepting_connector and resp = "example_response ''pay-1'' PAID"
      and uuid = "''tx-1''" and merchantId = "''merchant-1''" and db = "[]"]
  note t' = amount_round_trip [where request = ?big and k = 12345678912
      and c = accepting_connector and resp = "example_response ''pay-1'' PAID"
      and uuid = "''tx-2''" and merchantId = "''merchant-1''"
      and db = "[example_transaction PAID]"]
  note t'' = amount_round_trip [where request = ?fine
      and c = accepting_connector and resp = "example_response ''pay-1'' PAID"
      and uuid = "''tx-2''" and merchantId = "''merchant-1''"
      and db = "[example_transaction PAID]"]
  have m: "mp_amount (buildPaymentPayload example_request) = 10050"
    using t k3 d by simp
  have r: "rs_amount (mapMoyasarResponse example_moyasar_payment) = rq_amount example_request"
    using t k3 d w by simp
  have e: "my_amount example_moyasar_payment = mp_amount (buildPaymentPayload example_request)"
    using m w by simp
  have a': "rq_amount (example_request\<lparr>rq_description := Some ''Order 7''\<rparr>)
      = rs_amount (mapMoyasarResponse example_moyasar_payment)"
    using r by simp
  have again: "mp_amount (buildPaymentPayload (example_request\<lparr>rq_description := Some ''Order 7''\<rparr>))
      = mp_amount (buildPaymentPayload example_request)"
    using t k1 k2 d e a' by blast
  have s: "rs_status (mapMoyasarResponse example_moyasar_payment) = Canonical PAID"
    by (simp add: mapMoyasarResponse_def example_moyasar_payment_def mapStatus_def statusMap_def)
  have row: "map tx_amount (snd (createPayment accepting_connector ''tx-1'' ''merchant-1''
      example_request [])) = [201 / 2]"
    using t k4 d c a by simp
  have col0: "decimal_10_2 (201 / 2) = Some (201 / 2)" by code_simp
  have l: "createPayment accepting_connector ''tx-1'' ''merchant-1'' example_request []
      = (Inr (example_response ''tx-1'' PAID), [example_transaction PAID])"
    using col0
    by (simp add: createPayment_def selectPSP_def accepting_connector_def example_request_def
        example_response_def example_transaction_def Let_def)
  have big: "createPayment accepting_connector ''tx-2'' ''merchant-1'' ?big [example_transaction PAID]
      = (Inl (Error ''Failed to create payment: numeric field overflow''),
         [example_transaction PAID])"
    using t' k5 d' c by blast
  have fine: "map tx_amount (snd (createPayment accepting_connector ''tx-2'' ''merchant-1''
      ?fine [example_transaction PAID])) = [201 / 2, fl64 (101 / 100)]"
    using t'' c [of ?fine] col by (simp add: example_transaction_def)
  show ?thesis using a f k1 k2 k3 k4 k5 m w r a' again s c l row big fine col by simp
qed

end
